theory Spec2Isabelle
  imports Main "HOL-Library.Word"
begin

section \<open>Go values used by the provider\<close>

text \<open>
  A Go \<^verbatim>\<open>error\<close> is modelled by the message its \<^verbatim>\<open>Error()\<close> method returns;
  \<^verbatim>\<open>errors.New\<close> and \<^verbatim>\<open>fmt.Errorf\<close> build one. A function returning \<^verbatim>\<open>(T, error)\<close>
  returns \<open>go_error + T\<close>, with \<open>Inl\<close> for the non-nil error.
\<close>

datatype go_error = GoError (Error: string)

definition errors_New :: "string \<Rightarrow> go_error" where
  "errors_New msg = GoError msg"

text \<open>
  A value of type \<^verbatim>\<open>interface{}\<close> carries its dynamic type. The constructors are the
  dynamic types a sort direction can arrive with: an untyped constant \<^verbatim>\<open>1\<close> stored in an
  interface has type \<^verbatim>\<open>int\<close> (64 bits), the driver decodes a BSON int32 as \<^verbatim>\<open>int32\<close>,
  a BSON int64 as \<^verbatim>\<open>int64\<close>, a BSON double as \<^verbatim>\<open>float64\<close> (kept as its 64-bit pattern).
\<close>

datatype go_value =
    GoNil
  | GoBool bool
  | GoInt "64 word"
  | GoInt32 "32 word"
  | GoInt64 "64 word"
  | GoFloat64 "64 word"
  | GoString string

text \<open>
  \<^verbatim>\<open>strings.Split(s, sep)\<close> for a separator of one byte: the substrings of \<open>s\<close> between
  the occurrences of the separator, in order. The scan keeps the segment read so far in
  \<open>cur\<close> and closes it at each separator and at the end, so a string without the
  separator gives the one-element list \<open>[s]\<close> and the empty string gives the list
  holding the empty string.
\<close>

fun split_from :: "string \<Rightarrow> char \<Rightarrow> string \<Rightarrow> string list" where
  "split_from [] sep cur = [cur]"
| "split_from (x # xs) sep cur =
     (if x = sep then cur # split_from xs sep [] else split_from xs sep (cur @ [x]))"

definition strings_Split :: "string \<Rightarrow> char \<Rightarrow> string list" where
  "strings_Split s sep = split_from s sep []"

text \<open>\<^verbatim>\<open>strconv.FormatBool\<close>.\<close>

definition strconv_FormatBool :: "bool \<Rightarrow> string" where
  "strconv_FormatBool b = (if b then ''true'' else ''false'')"

section \<open>Values and diagnostics of the plugin framework\<close>

text \<open>
  \<^verbatim>\<open>types.String\<close> and \<^verbatim>\<open>types.Bool\<close> are null, unknown or known; \<^verbatim>\<open>ValueString\<close> and
  \<^verbatim>\<open>ValueBool\<close> give the zero value for null and unknown.
\<close>

datatype tf_string = StringNull | StringUnknown | StringValue string

fun ValueString :: "tf_string \<Rightarrow> string" where
  "ValueString (StringValue s) = s"
| "ValueString StringNull = []"
| "ValueString StringUnknown = []"

datatype tf_bool = BoolNull | BoolUnknown | BoolValue bool

fun ValueBool :: "tf_bool \<Rightarrow> bool" where
  "ValueBool (BoolValue b) = b"
| "ValueBool BoolNull = False"
| "ValueBool BoolUnknown = False"

datatype severity = SeverityError | SeverityWarning

record diagnostic =
  Severity :: severity
  Summary :: string
  Detail :: string
  Path :: "string option"

text \<open>
  \<^verbatim>\<open>Diagnostics.HasError\<close>, \<^verbatim>\<open>Append\<close> (which skips a diagnostic already in the
  collection), \<^verbatim>\<open>AddError\<close> and \<^verbatim>\<open>AddAttributeError\<close>.
\<close>

definition HasError :: "diagnostic list \<Rightarrow> bool" where
  "HasError ds = list_ex (\<lambda>d. Severity d = SeverityError) ds"

fun Append :: "diagnostic list \<Rightarrow> diagnostic list \<Rightarrow> diagnostic list" where
  "Append ds [] = ds"
| "Append ds (d # rest) = Append (if d \<in> set ds then ds else ds @ [d]) rest"

definition AddError :: "diagnostic list \<Rightarrow> string \<Rightarrow> string \<Rightarrow> diagnostic list" where
  "AddError ds s d =
     Append ds [\<lparr>Severity = SeverityError, Summary = s, Detail = d, Path = None\<rparr>]"

definition AddAttributeError ::
  "diagnostic list \<Rightarrow> string \<Rightarrow> string \<Rightarrow> string \<Rightarrow> diagnostic list" where
  "AddAttributeError ds p s d =
     Append ds [\<lparr>Severity = SeverityError, Summary = s, Detail = d, Path = Some p\<rparr>]"

text \<open>
  \<^verbatim>\<open>req.Config.Get\<close>, \<^verbatim>\<open>req.Plan.Get\<close> and \<^verbatim>\<open>req.State.Get\<close> fill a model struct and
  return diagnostics: the request carries that pair.
\<close>

type_synonym 'm tfsdk_Get = "diagnostic list \<times> 'm"

text \<open>The text every remote failure's detail ends with.\<close>

definition contact_developers :: "string \<Rightarrow> go_error \<Rightarrow> string" where
  "contact_developers what err =
     what @ ''If the error is not clear, please contact the provider developers.''
       @ [CHR 0x0A, CHR 0x0A] @ ''Error: '' @ Error err"

section \<open>Type and value translators\<close>

definition convertToMongoIndexType :: "string \<Rightarrow> go_value" where
  "convertToMongoIndexType indexType =
     (if indexType = ''asc'' then GoInt 1
      else if indexType = ''desc'' then GoInt (- 1)
      else GoString indexType)"

fun convertToTfIndexType :: "go_value \<Rightarrow> go_error + string" where
  "convertToTfIndexType (GoInt32 intValue) =
     (if intValue = 1 then Inr ''asc''
      else if intValue = - 1 then Inr ''desc''
      else Inl (errors_New ''if typeIndex is int, it MUST have value 1 ou -1''))"
| "convertToTfIndexType (GoString strValue) = Inr strValue"
| "convertToTfIndexType _ = Inl (errors_New ''typeIndex MUST be int32 or string'')"

section \<open>Identifier codec\<close>

text \<open>The struct \<^verbatim>\<open>collectionId\<close> and \<^verbatim>\<open>parseCollectionId\<close> of the collection resource.\<close>

record collectionId =
  database :: string
  collection :: string

definition parseCollectionId :: "string \<Rightarrow> go_error + collectionId" where
  "parseCollectionId ident =
     (let parts = strings_Split ident (CHR ''.'') in
      if length parts \<noteq> 2 then Inl (GoError (''invalid id format: '' @ ident))
      else Inr \<lparr>collectionId.database = parts ! 0, collectionId.collection = parts ! 1\<rparr>)"

text \<open>The struct \<^verbatim>\<open>indexId\<close> and \<^verbatim>\<open>parseIndexId\<close> of the utilities.\<close>

record indexId =
  database :: string
  collection :: string
  indexName :: string

definition parseIndexId :: "string \<Rightarrow> go_error + indexId" where
  "parseIndexId path =
     (let splitPath = strings_Split path (CHR ''.'') in
      if length splitPath \<noteq> 3
      then Inl (errors_New ''Index id's format must be <database>.<collection>.<index_name>'')
      else Inr \<lparr>indexId.database = splitPath ! 0, indexId.collection = splitPath ! 1,
                 indexName = splitPath ! 2\<rparr>)"

section \<open>Connection resolver\<close>

record mongodbProviderModel =
  Host :: tf_string
  Port :: tf_string
  Certificate :: tf_string
  Username :: tf_string
  Password :: tf_string
  AuthDatabase :: tf_string
  ReplicaSet :: tf_string
  InsecureSkipVerify :: tf_bool
  SSL :: tf_bool
  Direct :: tf_bool
  RetryWrites :: tf_bool
  Proxy :: tf_string
  Url :: tf_string

text \<open>
  The libraries the resolver calls are parameters: \<^verbatim>\<open>url.Parse\<close>, \<^verbatim>\<open>proxy.FromURL\<close>
  (with \<^verbatim>\<open>proxy.Direct\<close> as its forward dialer), the certificates
  \<^verbatim>\<open>CertPool.AppendCertsFromPEM\<close> finds in a PEM bundle, and \<^verbatim>\<open>mongo.Connect\<close>.
  \<open>'u\<close> is a parsed URL, \<open>'d\<close> a dialer, \<open>'c\<close> a certificate, \<open>'cl\<close> a client handle.
\<close>

record 'c tls_Config =
  tls_InsecureSkipVerify :: bool
  RootCAs :: "'c list"

record Credential =
  AuthSource :: string
  Cred_Username :: string
  Cred_Password :: string

record ('c, 'd) ClientOptions =
  URI :: string
  ServerAPIOptions :: string
  Auth :: Credential
  TLSConfig :: "'c tls_Config option"
  Dialer :: "'d option"

record ('u, 'd, 'c, 'cl) libraries =
  url_Parse :: "string \<Rightarrow> go_error + 'u"
  proxy_FromURL :: "'u \<Rightarrow> go_error + 'd"
  certsFromPEM :: "string \<Rightarrow> 'c list"
  mongo_Connect :: "('c, 'd) ClientOptions \<Rightarrow> go_error + 'cl"

definition addArgs :: "string \<Rightarrow> string \<Rightarrow> string" where
  "addArgs arguments newArg =
     (if arguments \<noteq> [] then arguments @ ''&'' @ newArg else ''/?'' @ newArg)"

text \<open>
  \<^verbatim>\<open>getTLSConfigWithAllServerCertificates(ca, verify)\<close>, the two-argument function that
  \<^verbatim>\<open>Configure\<close> calls. It returns the configuration together with the error.
  \<^verbatim>\<open>AppendCertsFromPEM\<close> adds every certificate of the bundle to the empty pool and
  reports whether it found one.
\<close>

definition getTLSConfigWithAllServerCertificates ::
  "('u, 'd, 'c, 'cl) libraries \<Rightarrow> string \<Rightarrow> bool \<Rightarrow> 'c tls_Config \<times> go_error option" where
  "getTLSConfigWithAllServerCertificates lib ca verify =
     (let tlsConfig = \<lparr>tls_InsecureSkipVerify = verify, RootCAs = [] @ certsFromPEM lib ca\<rparr>;
          ok = (certsFromPEM lib ca \<noteq> [])
      in if \<not> ok then (tlsConfig, Some (errors_New ''Failed parsing pem file''))
         else (tlsConfig, None))"

text \<open>
  \<^verbatim>\<open>proxyDialer\<close> as it stands beside that two-argument function: the proxy string is
  parsed and handed to \<^verbatim>\<open>proxy.FromURL\<close> whatever it is. The result is the error or the
  dialer; a dialer is \<open>Some\<close>, Go's \<^verbatim>\<open>nil, nil\<close> is \<open>Inr None\<close>.
\<close>

definition proxyDialer ::
  "('u, 'd, 'c, 'cl) libraries \<Rightarrow> string \<Rightarrow> go_error + 'd option" where
  "proxyDialer lib proxyUrlFromProvider =
     (case url_Parse lib proxyUrlFromProvider of
        Inl err \<Rightarrow> Inl err
      | Inr proxyURL \<Rightarrow>
          (case proxy_FromURL lib proxyURL of
             Inl err \<Rightarrow> Inl err
           | Inr d \<Rightarrow> Inr (Some d)))"

text \<open>
  The other copy of \<^verbatim>\<open>proxyDialer\<close> in the repository (beside the four-argument
  \<^verbatim>\<open>getTLSConfigWithAllServerCertificates\<close>): the same, under the guard
  \<^verbatim>\<open>proxyUrlFromProvider != ""\<close>, and \<^verbatim>\<open>nil, nil\<close> for the empty string.
\<close>

definition proxyDialer_guarded ::
  "('u, 'd, 'c, 'cl) libraries \<Rightarrow> string \<Rightarrow> go_error + 'd option" where
  "proxyDialer_guarded lib proxyUrlFromProvider =
     (if proxyUrlFromProvider \<noteq> [] then
        (case url_Parse lib proxyUrlFromProvider of
           Inl err \<Rightarrow> Inl err
         | Inr proxyURL \<Rightarrow>
             (case proxy_FromURL lib proxyURL of
                Inl err \<Rightarrow> Inl err
              | Inr d \<Rightarrow> Inr (Some d)))
      else Inr None)"

text \<open>The steps of \<^verbatim>\<open>Configure\<close> that leave the validation: each is recorded when made.\<close>

datatype ('c, 'd) activity =
    ProxyResolution string
  | TLSSetup string bool
  | ConnectionAttempt "('c, 'd) ClientOptions"

record Diagnosed =
  Diagnostics :: "diagnostic list"

record 'cl ConfigureResponse = Diagnosed +
  DataSourceData :: "'cl option"
  ResourceData :: "'cl option"

record ConfigureRequest =
  Config :: "mongodbProviderModel tfsdk_Get"

text \<open>The URI of \<^verbatim>\<open>Configure\<close> (the block that assigns \<^verbatim>\<open>uri\<close>).\<close>

definition connectionURI :: "mongodbProviderModel \<Rightarrow> string" where
  "connectionURI config =
     (if ValueString (Url config) \<noteq> [] then ValueString (Url config)
      else
        (let arguments = [];
             arguments = addArgs arguments
               (''retrywrites='' @ strconv_FormatBool (ValueBool (RetryWrites config)));
             arguments = (if ValueBool (SSL config) then addArgs arguments ''ssl=true''
                          else arguments);
             arguments = (if ValueString (ReplicaSet config) \<noteq> [] \<and> \<not> ValueBool (Direct config)
                          then addArgs arguments
                                 (''replicaSet='' @ ValueString (ReplicaSet config))
                          else arguments);
             arguments = (if ValueBool (Direct config)
                          then addArgs arguments (''connect='' @ ''direct'')
                          else arguments)
         in ''mongodb://'' @ ValueString (Host config) @ '':'' @ ValueString (Port config)
              @ arguments))"

text \<open>The options both branches of \<^verbatim>\<open>Configure\<close> build, with or without \<^verbatim>\<open>SetTLSConfig\<close>.\<close>

definition clientOptions ::
  "mongodbProviderModel \<Rightarrow> string \<Rightarrow> 'c tls_Config option \<Rightarrow> 'd option
     \<Rightarrow> ('c, 'd) ClientOptions" where
  "clientOptions config uri tlsConfig dialer =
     \<lparr>URI = uri, ServerAPIOptions = ''1'',
      Auth = \<lparr>AuthSource = ValueString (AuthDatabase config),
              Cred_Username = ValueString (Username config),
              Cred_Password = ValueString (Password config)\<rparr>,
      TLSConfig = tlsConfig, Dialer = dialer\<rparr>"

text \<open>The end of \<^verbatim>\<open>Configure\<close>: the single \<^verbatim>\<open>mongo.Connect\<close> and what follows it.\<close>

definition connectClient ::
  "('u, 'd, 'c, 'cl) libraries \<Rightarrow> ('c, 'd) ClientOptions \<Rightarrow> 'cl ConfigureResponse
     \<Rightarrow> ('c, 'd) activity list \<Rightarrow> 'cl ConfigureResponse \<times> ('c, 'd) activity list" where
  "connectClient lib opts resp done =
     (case mongo_Connect lib opts of
        Inl err \<Rightarrow>
          (resp\<lparr>Diagnostics := AddError (Diagnostics resp) ''Unable to Create MongoDB Client''
              (contact_developers
                 ''An unexpected error occurred when creating the MongoDB client. '' err)\<rparr>,
           done @ [ConnectionAttempt opts])
      | Inr client \<Rightarrow>
          (resp\<lparr>DataSourceData := Some client, ResourceData := Some client\<rparr>,
           done @ [ConnectionAttempt opts]))"

definition Configure ::
  "('u, 'd, 'c, 'cl) libraries \<Rightarrow> ConfigureRequest \<Rightarrow> 'cl ConfigureResponse
     \<Rightarrow> 'cl ConfigureResponse \<times> ('c, 'd) activity list" where
  "Configure lib req resp0 =
     (let diags = fst (Config req);
          config = snd (Config req);
          resp = resp0\<lparr>Diagnostics := Append (Diagnostics resp0) diags\<rparr>
      in
      if HasError (Diagnostics resp) then (resp, [])
      else if ValueString (Url config) = [] \<and> ValueString (Host config) = [] then
        (resp\<lparr>Diagnostics := AddAttributeError (Diagnostics resp) ''host''
            ''Missing host or url''
            ''The provider cannot create the MongoDB client as there is an unknown configuration value for the host. Please specify either host or url.''\<rparr>,
         [])
      else if ValueString (Url config) \<noteq> [] \<and> ValueString (Host config) \<noteq> [] then
        (resp\<lparr>Diagnostics := AddAttributeError (Diagnostics resp) ''host''
            ''Conflicting host and url''
            ''The provider cannot create the MongoDB client as there are conflicting configuration values for host and url. Please specify either host or url, but not both.''\<rparr>,
         [])
      else if HasError (Diagnostics resp) then (resp, [])
      else
        (let uri = connectionURI config;
             done1 = [ProxyResolution (ValueString (Proxy config))]
         in
         case proxyDialer lib (ValueString (Proxy config)) of
           Inl dialerErr \<Rightarrow>
             (resp\<lparr>Diagnostics := AddError (Diagnostics resp) ''Unable to create proxy dialer''
                 (contact_developers
                    ''An unexpected error occurred when creating the proxy dialer. '' dialerErr)\<rparr>,
              done1)
         | Inr dialer \<Rightarrow>
             (let verify = (if ValueBool (InsecureSkipVerify config) then True else False)
              in
              if ValueString (Certificate config) \<noteq> [] then
                (let done2 = done1 @ [TLSSetup (ValueString (Certificate config)) verify]
                 in
                 case getTLSConfigWithAllServerCertificates lib
                        (ValueString (Certificate config)) verify of
                   (tlsConfig, Some err) \<Rightarrow>
                     (resp\<lparr>Diagnostics := AddError (Diagnostics resp)
                         ''Unable to read certificate''
                         (contact_developers
                            ''An unexpected error occurred when reading the certificate. ''
                            err)\<rparr>,
                      done2)
                 | (tlsConfig, None) \<Rightarrow>
                     connectClient lib (clientOptions config uri (Some tlsConfig) dialer)
                       resp done2)
              else connectClient lib (clientOptions config uri None dialer) resp done1)))"

section \<open>The remote store behind the shared client\<close>

text \<open>
  A resource reaches the store through the driver only. Every driver call is recorded in
  the order made, and the client answers a call from the calls made before it, so the
  store may be in any state and may change between calls. \<open>run\<close> answers the calls that
  return an error only, \<open>names\<close> the listings.
\<close>

datatype remote_call =
    CreateCollection string string "string option"
  | DropCollection string string
  | DropDatabase string
  | ListDatabaseNames string
  | ListCollectionNames string string
  | CreateIndex string string "(string \<times> go_value) list" "string option"
  | ListIndexes string string string

record mongo_Client =
  run :: "remote_call list \<Rightarrow> remote_call \<Rightarrow> go_error option"
  names :: "remote_call list \<Rightarrow> remote_call \<Rightarrow> go_error + string list"

definition db_CreateCollection ::
  "mongo_Client \<Rightarrow> remote_call list \<Rightarrow> string \<Rightarrow> string \<Rightarrow> string option
     \<Rightarrow> go_error option \<times> remote_call list" where
  "db_CreateCollection client calls db name validator =
     (run client calls (CreateCollection db name validator),
      calls @ [CreateCollection db name validator])"

definition collection_Drop ::
  "mongo_Client \<Rightarrow> remote_call list \<Rightarrow> string \<Rightarrow> string
     \<Rightarrow> go_error option \<times> remote_call list" where
  "collection_Drop client calls db name =
     (run client calls (DropCollection db name), calls @ [DropCollection db name])"

definition client_ListDatabaseNames ::
  "mongo_Client \<Rightarrow> remote_call list \<Rightarrow> string
     \<Rightarrow> (go_error + string list) \<times> remote_call list" where
  "client_ListDatabaseNames client calls name =
     (names client calls (ListDatabaseNames name), calls @ [ListDatabaseNames name])"

definition db_ListCollectionNames ::
  "mongo_Client \<Rightarrow> remote_call list \<Rightarrow> string \<Rightarrow> string
     \<Rightarrow> (go_error + string list) \<times> remote_call list" where
  "db_ListCollectionNames client calls db name =
     (names client calls (ListCollectionNames db name),
      calls @ [ListCollectionNames db name])"

section \<open>Resource state machine\<close>

text \<open>
  A response holds the diagnostics and the state. \<^verbatim>\<open>State.Set\<close> stores a model of the
  resource's own schema and returns no diagnostic; a state never set stays what the
  response came with.
\<close>

record 's Response = Diagnosed +
  State :: 's

record 'm Request =
  Data :: "'m tfsdk_Get"

subsection \<open>Database\<close>

record databaseResourceModel =
  Name :: string
  Id :: tf_string

definition databaseResource_Create ::
  "mongo_Client \<Rightarrow> remote_call list \<Rightarrow> databaseResourceModel Request
     \<Rightarrow> databaseResourceModel option Response
     \<Rightarrow> databaseResourceModel option Response \<times> remote_call list" where
  "databaseResource_Create client calls req resp0 =
     (let diags = fst (Data req);
          plan = snd (Data req);
          resp = resp0\<lparr>Diagnostics := Append (Diagnostics resp0) diags\<rparr>
      in
      if HasError (Diagnostics resp) then (resp, calls)
      else
        (let databaseName = databaseResourceModel.Name plan in
         case db_CreateCollection client calls databaseName ''_terraform_created'' None of
           (Some err, calls1) \<Rightarrow>
             (resp\<lparr>Diagnostics := AddError (Diagnostics resp) ''Unable to create database''
                 (contact_developers
                    ''An unexpected error occurred when creating database. '' err)\<rparr>,
              calls1)
         | (None, calls1) \<Rightarrow>
             (case collection_Drop client calls1 databaseName ''_terraform_created'' of
                (Some err, calls2) \<Rightarrow>
                  (resp\<lparr>Diagnostics := AddError (Diagnostics resp)
                      ''Unable to clean up dummy collection''
                      (contact_developers
                         ''An unexpected error occurred when cleaning up. '' err)\<rparr>,
                   calls2)
              | (None, calls2) \<Rightarrow>
                  (let plan = plan\<lparr>databaseResourceModel.Id := StringValue databaseName\<rparr>
                   in (resp\<lparr>State := Some plan,
                             Diagnostics := Append (Diagnostics resp) []\<rparr>,
                       calls2)))))"

definition databaseResource_Read ::
  "mongo_Client \<Rightarrow> remote_call list \<Rightarrow> databaseResourceModel Request
     \<Rightarrow> databaseResourceModel option Response
     \<Rightarrow> databaseResourceModel option Response \<times> remote_call list" where
  "databaseResource_Read client calls req resp0 =
     (let diags = fst (Data req);
          state = snd (Data req);
          resp = resp0\<lparr>Diagnostics := Append (Diagnostics resp0) diags\<rparr>
      in
      if HasError (Diagnostics resp) then (resp, calls)
      else
        (let databaseName = databaseResourceModel.Name state in
         case client_ListDatabaseNames client calls databaseName of
           (Inl err, calls1) \<Rightarrow>
             (resp\<lparr>Diagnostics := AddError (Diagnostics resp) ''Unable to list databases''
                 (contact_developers
                    ''An unexpected error occurred when listing databases. '' err)\<rparr>,
              calls1)
         | (Inr databases, calls1) \<Rightarrow>
             if length databases = 0 then
               (resp\<lparr>Diagnostics := AddError (Diagnostics resp) ''Database not found''
                   (''Database '' @ databaseName @ '' does not exist'')\<rparr>,
                calls1)
             else
               (let state = state\<lparr>databaseResourceModel.Id := StringValue databaseName\<rparr>
                in (resp\<lparr>State := Some state,
                          Diagnostics := Append (Diagnostics resp) []\<rparr>,
                    calls1))))"

definition databaseResource_Update ::
  "mongo_Client \<Rightarrow> remote_call list \<Rightarrow> 'req \<Rightarrow> 's Response
     \<Rightarrow> 's Response \<times> remote_call list" where
  "databaseResource_Update client calls req resp =
     (resp\<lparr>Diagnostics := AddError (Diagnostics resp) ''Updates not supported''
         ''Database updates are not supported. Changes to database configuration require recreation.''\<rparr>,
      calls)"

text \<open>
  \<^verbatim>\<open>ImportState\<close> writes single attributes of the state, so its state is the map from
  attribute names to values; \<^verbatim>\<open>State.SetAttribute\<close> at a root attribute of the schema
  stores the value and returns no diagnostic.
\<close>

type_synonym attributes = "string \<rightharpoonup> string"

definition State_SetAttribute ::
  "attributes \<Rightarrow> string \<Rightarrow> string \<Rightarrow> attributes \<times> diagnostic list" where
  "State_SetAttribute st p v = (st(p \<mapsto> v), [])"

definition SetAttribute_Append ::
  "attributes Response \<Rightarrow> string \<Rightarrow> string \<Rightarrow> attributes Response" where
  "SetAttribute_Append resp p v =
     (let r = State_SetAttribute (State resp) p v
      in resp\<lparr>State := fst r, Diagnostics := Append (Diagnostics resp) (snd r)\<rparr>)"

definition databaseResource_ImportState ::
  "string \<Rightarrow> attributes Response \<Rightarrow> attributes Response" where
  "databaseResource_ImportState ID resp = SetAttribute_Append resp ''name'' ID"

subsection \<open>Collection\<close>

record validation =
  Validator :: string

record collectionResourceModel =
  Database :: string
  Name :: string
  Validation :: "validation option"
  Id :: tf_string

definition collectionResource_Create ::
  "mongo_Client \<Rightarrow> remote_call list \<Rightarrow> collectionResourceModel Request
     \<Rightarrow> collectionResourceModel option Response
     \<Rightarrow> collectionResourceModel option Response \<times> remote_call list" where
  "collectionResource_Create client calls req resp0 =
     (let diags = fst (Data req);
          plan = snd (Data req);
          resp = resp0\<lparr>Diagnostics := Append (Diagnostics resp0) diags\<rparr>
      in
      if HasError (Diagnostics resp) then (resp, calls)
      else
        (let databaseName = Database plan;
             collectionName = collectionResourceModel.Name plan;
             opts = (case Validation plan of
                       Some v \<Rightarrow> Some (Validator v)
                     | None \<Rightarrow> None)
         in
         case db_CreateCollection client calls databaseName collectionName opts of
           (Some err, calls1) \<Rightarrow>
             (resp\<lparr>Diagnostics := AddError (Diagnostics resp) ''Unable to create collection''
                 (contact_developers
                    ''An unexpected error occurred when creating collection. '' err)\<rparr>,
              calls1)
         | (None, calls1) \<Rightarrow>
             (let plan = plan\<lparr>collectionResourceModel.Id :=
                                StringValue (databaseName @ ''.'' @ collectionName)\<rparr>
              in (resp\<lparr>State := Some plan,
                        Diagnostics := Append (Diagnostics resp) []\<rparr>,
                  calls1))))"

definition collectionResource_Read ::
  "mongo_Client \<Rightarrow> remote_call list \<Rightarrow> collectionResourceModel Request
     \<Rightarrow> collectionResourceModel option Response
     \<Rightarrow> collectionResourceModel option Response \<times> remote_call list" where
  "collectionResource_Read client calls req resp0 =
     (let diags = fst (Data req);
          state = snd (Data req);
          resp = resp0\<lparr>Diagnostics := Append (Diagnostics resp0) diags\<rparr>
      in
      if HasError (Diagnostics resp) then (resp, calls)
      else
        (let databaseName = Database state;
             collectionName = collectionResourceModel.Name state
         in
         case db_ListCollectionNames client calls databaseName collectionName of
           (Inl err, calls1) \<Rightarrow>
             (resp\<lparr>Diagnostics := AddError (Diagnostics resp) ''Unable to list collections''
                 (contact_developers
                    ''An unexpected error occurred when listing collections. '' err)\<rparr>,
              calls1)
         | (Inr collections, calls1) \<Rightarrow>
             if length collections = 0 then
               (resp\<lparr>Diagnostics := AddError (Diagnostics resp) ''Collection not found''
                   (''Collection '' @ databaseName @ ''.'' @ collectionName
                      @ '' does not exist'')\<rparr>,
                calls1)
             else
               (let state = state\<lparr>collectionResourceModel.Id :=
                                    StringValue (databaseName @ ''.'' @ collectionName)\<rparr>
                in (resp\<lparr>State := Some state,
                          Diagnostics := Append (Diagnostics resp) []\<rparr>,
                    calls1))))"

definition collectionResource_Update ::
  "mongo_Client \<Rightarrow> remote_call list \<Rightarrow> 'req \<Rightarrow> 's Response
     \<Rightarrow> 's Response \<times> remote_call list" where
  "collectionResource_Update client calls req resp =
     (resp\<lparr>Diagnostics := AddError (Diagnostics resp) ''Updates not supported''
         ''Collection updates are not supported. Changes to collection configuration require recreation.''\<rparr>,
      calls)"

definition collectionResource_ImportState ::
  "string \<Rightarrow> attributes Response \<Rightarrow> attributes Response" where
  "collectionResource_ImportState ID resp =
     (case parseCollectionId ID of
        Inl err \<Rightarrow>
          resp\<lparr>Diagnostics := AddError (Diagnostics resp)
            ''Invalid id format. Should be <database>.<collection>.''
            (contact_developers
               ''An unexpected error occurred when importing collection. '' err)\<rparr>
      | Inr ident \<Rightarrow>
          SetAttribute_Append
            (SetAttribute_Append resp ''database'' (collectionId.database ident))
            ''name'' (collectionId.collection ident))"

subsection \<open>Index\<close>

text \<open>
  Modelled from the spec: the index resource (\<^verbatim>\<open>NewIndexResource\<close> in the provider's
  \<^verbatim>\<open>Resources\<close>) has no source file here; only \<^verbatim>\<open>parseIndexId\<close> and the direction
  translators it uses are present. Its model holds the identity attributes, the key
  specification (field name and direction token) and the name, null when the plan leaves
  it to the store.
\<close>

record indexResourceModel =
  idx_Database :: string
  idx_Collection :: string
  idx_Keys :: "(string \<times> string) list"
  idx_Name :: tf_string
  idx_Id :: tf_string

text \<open>
  Modelled from the spec: the driver calls of the missing index resource. Creating an
  index returns the name the store assigned; listing is filtered by name within the
  collection. \<open>assigned\<close> answers the first, \<open>names\<close> of the client the second.
\<close>

definition collection_CreateIndex ::
  "(remote_call list \<Rightarrow> remote_call \<Rightarrow> go_error + string) \<Rightarrow> remote_call list
     \<Rightarrow> string \<Rightarrow> string \<Rightarrow> (string \<times> go_value) list \<Rightarrow> string option
     \<Rightarrow> (go_error + string) \<times> remote_call list" where
  "collection_CreateIndex assigned calls db coll keys name =
     (assigned calls (CreateIndex db coll keys name),
      calls @ [CreateIndex db coll keys name])"

definition collection_ListIndexes ::
  "mongo_Client \<Rightarrow> remote_call list \<Rightarrow> string \<Rightarrow> string \<Rightarrow> string
     \<Rightarrow> (go_error + string list) \<times> remote_call list" where
  "collection_ListIndexes client calls db coll name =
     (names client calls (ListIndexes db coll name), calls @ [ListIndexes db coll name])"

text \<open>
  Modelled from the spec: \<^verbatim>\<open>Create\<close> of the missing index resource (spec 4.3). An empty
  key mapping fails with \<^verbatim>\<open>InvalidKeySpecError\<close>; the directions are translated (4.4) and
  the index is created; a remote failure fails with \<^verbatim>\<open>RemoteOperationError\<close>; on success
  the identifier is \<^verbatim>\<open>database.collection.indexName\<close> with the name the store assigned.
  The spec names the error classes, not the diagnostics' titles: the class name stands
  for the title.
\<close>

definition indexResource_Create ::
  "mongo_Client \<Rightarrow> (remote_call list \<Rightarrow> remote_call \<Rightarrow> go_error + string)
     \<Rightarrow> remote_call list \<Rightarrow> indexResourceModel Request
     \<Rightarrow> indexResourceModel option Response
     \<Rightarrow> indexResourceModel option Response \<times> remote_call list" where
  "indexResource_Create client assigned calls req resp0 =
     (let diags = fst (Data req);
          plan = snd (Data req);
          resp = resp0\<lparr>Diagnostics := Append (Diagnostics resp0) diags\<rparr>
      in
      if HasError (Diagnostics resp) then (resp, calls)
      else if idx_Keys plan = [] then
        (resp\<lparr>Diagnostics := AddError (Diagnostics resp) ''InvalidKeySpecError''
            ''The key mapping is empty.''\<rparr>,
         calls)
      else
        (case collection_CreateIndex assigned calls (idx_Database plan) (idx_Collection plan)
                (map (\<lambda>k. (fst k, convertToMongoIndexType (snd k))) (idx_Keys plan))
                (case idx_Name plan of StringValue n \<Rightarrow> Some n | _ \<Rightarrow> None) of
           (Inl err, calls1) \<Rightarrow>
             (resp\<lparr>Diagnostics := AddError (Diagnostics resp) ''RemoteOperationError''
                 (contact_developers
                    ''An unexpected error occurred when creating index. '' err)\<rparr>,
              calls1)
         | (Inr assignedName, calls1) \<Rightarrow>
             (let plan = plan\<lparr>idx_Name := StringValue assignedName,
                             idx_Id := StringValue (idx_Database plan @ ''.''
                               @ idx_Collection plan @ ''.'' @ assignedName)\<rparr>
              in (resp\<lparr>State := Some plan,
                        Diagnostics := Append (Diagnostics resp) []\<rparr>,
                  calls1))))"

text \<open>
  Modelled from the spec: \<^verbatim>\<open>Read\<close> of the missing index resource (spec 4.3): the index
  list filtered by name within the collection; a query failure fails with
  \<^verbatim>\<open>RemoteOperationError\<close>, zero matches with \<^verbatim>\<open>NotFoundError\<close>.
\<close>

definition indexResource_Read ::
  "mongo_Client \<Rightarrow> remote_call list \<Rightarrow> indexResourceModel Request
     \<Rightarrow> indexResourceModel option Response
     \<Rightarrow> indexResourceModel option Response \<times> remote_call list" where
  "indexResource_Read client calls req resp0 =
     (let diags = fst (Data req);
          state = snd (Data req);
          resp = resp0\<lparr>Diagnostics := Append (Diagnostics resp0) diags\<rparr>
      in
      if HasError (Diagnostics resp) then (resp, calls)
      else
        (case collection_ListIndexes client calls (idx_Database state) (idx_Collection state)
                (ValueString (idx_Name state)) of
           (Inl err, calls1) \<Rightarrow>
             (resp\<lparr>Diagnostics := AddError (Diagnostics resp) ''RemoteOperationError''
                 (contact_developers
                    ''An unexpected error occurred when listing indexes. '' err)\<rparr>,
              calls1)
         | (Inr indexes, calls1) \<Rightarrow>
             if length indexes = 0 then
               (resp\<lparr>Diagnostics := AddError (Diagnostics resp) ''NotFoundError''
                   (''Index '' @ idx_Database state @ ''.'' @ idx_Collection state @ ''.''
                      @ ValueString (idx_Name state) @ '' does not exist'')\<rparr>,
                calls1)
             else
               (let state = state\<lparr>idx_Id := StringValue (idx_Database state @ ''.''
                                 @ idx_Collection state @ ''.''
                                 @ ValueString (idx_Name state))\<rparr>
                in (resp\<lparr>State := Some state,
                          Diagnostics := Append (Diagnostics resp) []\<rparr>,
                    calls1))))"

text \<open>
  Modelled from the spec: \<^verbatim>\<open>Update\<close> of the missing index resource (spec 4.3): the
  unconditional failure "enforced identically across all three kinds", with the title the
  two present kinds use.
\<close>

definition indexResource_Update ::
  "mongo_Client \<Rightarrow> remote_call list \<Rightarrow> 'req \<Rightarrow> 's Response
     \<Rightarrow> 's Response \<times> remote_call list" where
  "indexResource_Update client calls req resp =
     (resp\<lparr>Diagnostics := AddError (Diagnostics resp) ''Updates not supported''
         ''Index updates are not supported. Changes to index configuration require recreation.''\<rparr>,
      calls)"

text \<open>
  Modelled from the spec: \<^verbatim>\<open>ImportState\<close> of the missing index resource (spec 4.3): the
  id is decoded by \<^verbatim>\<open>parseIndexId\<close> (which is in the source); a decode failure is
  surfaced as an invalid-id-format message naming the pattern; on success the three
  identity attributes are seeded.
\<close>

definition indexResource_ImportState ::
  "string \<Rightarrow> attributes Response \<Rightarrow> attributes Response" where
  "indexResource_ImportState ID resp =
     (case parseIndexId ID of
        Inl err \<Rightarrow>
          resp\<lparr>Diagnostics := AddError (Diagnostics resp)
            ''Invalid id format. Should be <database>.<collection>.<index_name>.''
            (contact_developers
               ''An unexpected error occurred when importing index. '' err)\<rparr>
      | Inr ident \<Rightarrow>
          SetAttribute_Append
            (SetAttribute_Append
               (SetAttribute_Append resp ''database'' (indexId.database ident))
               ''collection'' (indexId.collection ident))
            ''name'' (indexName ident))"

section \<open>The specification's wording, for comparison with the code\<close>

text \<open>
  The query tail as the specification words it: the arguments that apply, in the fixed
  order, joined with \<^verbatim>\<open>&\<close> after a leading \<^verbatim>\<open>/?\<close>.
\<close>

fun joined_with_amp :: "string list \<Rightarrow> string" where
  "joined_with_amp [] = []"
| "joined_with_amp [a] = a"
| "joined_with_amp (a # b # rest) = a @ ''&'' @ joined_with_amp (b # rest)"

definition spec_arguments :: "bool \<Rightarrow> bool \<Rightarrow> string \<Rightarrow> bool \<Rightarrow> string list" where
  "spec_arguments retrywrites ssl replica_set direct =
     [''retrywrites='' @ (if retrywrites then ''true'' else ''false'')]
       @ (if ssl then [''ssl=true''] else [])
       @ (if replica_set \<noteq> [] \<and> \<not> direct then [''replicaSet='' @ replica_set] else [])
       @ (if direct then [''connect=direct''] else [])"

definition spec_query_tail :: "bool \<Rightarrow> bool \<Rightarrow> string \<Rightarrow> bool \<Rightarrow> string" where
  "spec_query_tail retrywrites ssl replica_set direct =
     ''/?'' @ joined_with_amp (spec_arguments retrywrites ssl replica_set direct)"

text \<open>The titles of the two configuration errors of the validation.\<close>

definition ConfigurationError :: "diagnostic \<Rightarrow> bool" where
  "ConfigurationError d =
     (Severity d = SeverityError
        \<and> (Summary d = ''Missing host or url'' \<or> Summary d = ''Conflicting host and url''))"

section \<open>Inputs for running the resolver\<close>

text \<open>
  The four provider blocks of the provider's tests: host and port with credentials, the
  URL alone, the empty block, and host together with URL.
\<close>

definition emptyConfig :: mongodbProviderModel where
  "emptyConfig =
     \<lparr>Host = StringNull, Port = StringNull, Certificate = StringNull,
      Username = StringNull, Password = StringNull, AuthDatabase = StringNull,
      ReplicaSet = StringNull, InsecureSkipVerify = BoolNull, SSL = BoolNull,
      Direct = BoolNull, RetryWrites = BoolNull, Proxy = StringNull, Url = StringNull\<rparr>"

definition providerConfig :: mongodbProviderModel where
  "providerConfig =
     emptyConfig\<lparr>Host := StringValue ''localhost'', Port := StringValue ''27017'',
                  Username := StringValue ''test'', Password := StringValue ''test''\<rparr>"

definition providerConfigWithURL :: mongodbProviderModel where
  "providerConfigWithURL = emptyConfig\<lparr>Url := StringValue ''mongodb://localhost:27017''\<rparr>"

definition conflictingConfig :: mongodbProviderModel where
  "conflictingConfig =
     emptyConfig\<lparr>Host := StringValue ''localhost'',
                  Url := StringValue ''mongodb://localhost:27017''\<rparr>"

text \<open>
  A CA certificate for these runs: a self-signed X.509 certificate (ECDSA P-256, subject
  \<^verbatim>\<open>CN=terraform-test-ca\<close>, CA:TRUE) in PEM, line by line.
\<close>

definition testCA :: string where
  "testCA =
     ''-----BEGIN CERTIFICATE-----'' @ [CHR 0x0A]
     @ ''MIIBjzCCATWgAwIBAgIUAX7WTMrKj1/ZKwUvvv6itM1GsGIwCgYIKoZIzj0EAwIw'' @ [CHR 0x0A]
     @ ''HDEaMBgGA1UEAwwRdGVycmFmb3JtLXRlc3QtY2EwIBcNMjYxMDMxMDYyMTIyWhgP'' @ [CHR 0x0A]
     @ ''MjEyNjEwMDcwNjIxMjJaMBwxGjAYBgNVBAMMEXRlcnJhZm9ybS10ZXN0LWNhMFkw'' @ [CHR 0x0A]
     @ ''EwYHKoZIzj0CAQYIKoZIzj0DAQcDQgAEU8c4XG9K9OYJ1L961O6I9oX3XvK/Wb4X'' @ [CHR 0x0A]
     @ ''4TkqsGyrIvnezEubxgXWKlpeskuAQWqEj0Fauchds2tPSmKfK5zkPKNTMFEwHQYD'' @ [CHR 0x0A]
     @ ''VR0OBBYEFH2E8vYOtJD18DUIkGO7AI+aVuHqMB8GA1UdIwQYMBaAFH2E8vYOtJD1'' @ [CHR 0x0A]
     @ ''8DUIkGO7AI+aVuHqMA8GA1UdEwEB/wQFMAMBAf8wCgYIKoZIzj0EAwIDSAAwRQIg'' @ [CHR 0x0A]
     @ ''BV0DxPl/XuQZuoyqRr2wCth4ITHu7MnFS7YicKdCxaYCIQClWHLyvTQbOebvcoSk'' @ [CHR 0x0A]
     @ ''YVjk2kn/2OyM6JFdxWihlllPMA=='' @ [CHR 0x0A]
     @ ''-----END CERTIFICATE-----'' @ [CHR 0x0A]"

text \<open>
  Libraries for running the resolver on the inputs of this section, answering as the
  real ones do there: the proxy strings used (the empty string, a SOCKS5 URL) parse,
  \<^verbatim>\<open>proxy.FromURL\<close> gives a dialer for the schemes \<^verbatim>\<open>socks5\<close> and \<^verbatim>\<open>socks5h\<close> and refuses
  any other scheme, the empty one included, \<^verbatim>\<open>AppendCertsFromPEM\<close> finds the one
  certificate of \<open>testCA\<close> (named here by its subject) and none in the empty string or in
  a lone \<^verbatim>\<open>BEGIN\<close> line, and the connection succeeds. A parsed URL is the string it came
  from, a dialer the proxy URL, a client the URI it connected to.
\<close>

definition testLibraries :: "(string, string, string, string) libraries" where
  "testLibraries =
     \<lparr>url_Parse = (\<lambda>s. Inr s),
      proxy_FromURL = (\<lambda>u. if take 9 u = ''socks5://'' \<or> take 10 u = ''socks5h://''
                            then Inr u
                            else Inl (GoError (''proxy: unknown scheme: ''
                                   @ takeWhile (\<lambda>c. c \<noteq> CHR '':'') u))),
      certsFromPEM = (\<lambda>s. if s = testCA then [''CN=terraform-test-ca''] else []),
      mongo_Connect = (\<lambda>opts. Inr (URI opts))\<rparr>"

definition freshConfigureResponse :: "string ConfigureResponse" where
  "freshConfigureResponse = \<lparr>Diagnostics = [], DataSourceData = None, ResourceData = None\<rparr>"

text \<open>
  Three more inputs: a SOCKS5 proxy; with it the CA certificate and the toggle; and with
  it a certificate string that holds no certificate.
\<close>

definition proxiedConfig :: mongodbProviderModel where
  "proxiedConfig = providerConfig\<lparr>Proxy := StringValue ''socks5://proxy:1080''\<rparr>"

definition certifiedConfig :: mongodbProviderModel where
  "certifiedConfig =
     proxiedConfig\<lparr>Certificate := StringValue testCA,
                    InsecureSkipVerify := BoolValue True\<rparr>"

definition unreadableCertificateConfig :: mongodbProviderModel where
  "unreadableCertificateConfig =
     proxiedConfig\<lparr>Certificate := StringValue ''-----BEGIN CERTIFICATE-----'',
                    InsecureSkipVerify := BoolValue True\<rparr>"

section \<open>Failed remote steps\<close>

text \<open>
  Whether a driver call made after the calls \<open>before\<close> returned an error, and whether
  any call of a sequence made after \<open>before\<close> did. \<open>assigned\<close> answers the index creation
  of the index resource.
\<close>

fun step_failed ::
  "mongo_Client \<Rightarrow> (remote_call list \<Rightarrow> remote_call \<Rightarrow> go_error + string)
     \<Rightarrow> remote_call list \<Rightarrow> remote_call \<Rightarrow> bool" where
  "step_failed client assigned before (ListDatabaseNames n) =
     isl (names client before (ListDatabaseNames n))"
| "step_failed client assigned before (ListCollectionNames db n) =
     isl (names client before (ListCollectionNames db n))"
| "step_failed client assigned before (ListIndexes db coll n) =
     isl (names client before (ListIndexes db coll n))"
| "step_failed client assigned before (CreateIndex db coll keys n) =
     isl (assigned before (CreateIndex db coll keys n))"
| "step_failed client assigned before call = (run client before call \<noteq> None)"

fun any_step_failed ::
  "mongo_Client \<Rightarrow> (remote_call list \<Rightarrow> remote_call \<Rightarrow> go_error + string)
     \<Rightarrow> remote_call list \<Rightarrow> remote_call list \<Rightarrow> bool" where
  "any_step_failed client assigned before [] = False"
| "any_step_failed client assigned before (call # rest) =
     (step_failed client assigned before call
      \<or> any_step_failed client assigned (before @ [call]) rest)"

text \<open>
  Stores for running the resources: one that accepts every call and lists the name asked
  for, one that accepts the creation of a collection and refuses everything else, and one
  that refuses every call.
\<close>

definition acceptingClient :: mongo_Client where
  "acceptingClient =
     \<lparr>run = (\<lambda>before call. None),
      names = (\<lambda>before call. case call of
                 ListDatabaseNames n \<Rightarrow> Inr [n]
               | ListCollectionNames db n \<Rightarrow> Inr [n]
               | ListIndexes db coll n \<Rightarrow> Inr [n]
               | _ \<Rightarrow> Inr [])\<rparr>"

definition refusingClient :: mongo_Client where
  "refusingClient =
     \<lparr>run = (\<lambda>before call. case call of
               CreateCollection db n v \<Rightarrow> None
             | _ \<Rightarrow> Some (GoError ''not authorized'')),
      names = (\<lambda>before call. Inl (GoError ''not authorized''))\<rparr>"

definition deniedClient :: mongo_Client where
  "deniedClient =
     \<lparr>run = (\<lambda>before call. Some (GoError ''not authorized'')),
      names = (\<lambda>before call. Inl (GoError ''not authorized''))\<rparr>"

definition freshResponse :: "'m option Response" where
  "freshResponse = \<lparr>Diagnostics = [], State = None\<rparr>"

text \<open>The plans of the resources' tests.\<close>

definition test_db_new :: "databaseResourceModel Request" where
  "test_db_new =
     \<lparr>Data = ([], \<lparr>databaseResourceModel.Name = ''test_db_new'',
                       databaseResourceModel.Id = StringUnknown\<rparr>)\<rparr>"

definition test_collection :: "collectionResourceModel Request" where
  "test_collection =
     \<lparr>Data = ([], \<lparr>Database = ''terraform_test_db'',
                       collectionResourceModel.Name = ''test_collection'',
                       Validation = None, collectionResourceModel.Id = StringUnknown\<rparr>)\<rparr>"

definition test_index :: "indexResourceModel Request" where
  "test_index =
     \<lparr>Data = ([], \<lparr>idx_Database = ''terraform_test_db'', idx_Collection = ''test_collection'',
                       idx_Keys = [(''age'', ''asc'')], idx_Name = StringNull,
                       idx_Id = StringUnknown\<rparr>)\<rparr>"

definition failingAssignment :: "remote_call list \<Rightarrow> remote_call \<Rightarrow> go_error + string" where
  "failingAssignment before call = Inl (GoError ''not authorized'')"

section \<open>Facts about the library models\<close>

lemma split_from_no_sep: "sep \<notin> set a \<Longrightarrow> split_from a sep cur = [cur @ a]"
  by (induction a arbitrary: cur) auto

lemma split_from_append:
  "sep \<notin> set a \<Longrightarrow> split_from (a @ sep # r) sep cur = (cur @ a) # split_from r sep []"
  by (induction a arbitrary: cur) auto

lemma split_from_length: "length (split_from s sep cur) = Suc (count_list s sep)"
  by (induction s arbitrary: cur) auto

lemma strings_Split_no_sep: "sep \<notin> set a \<Longrightarrow> strings_Split a sep = [a]"
  by (simp add: strings_Split_def split_from_no_sep)

lemma strings_Split_append:
  "sep \<notin> set a \<Longrightarrow> strings_Split (a @ sep # r) sep = a # strings_Split r sep"
  by (simp add: strings_Split_def split_from_append)

lemma strings_Split_length: "length (strings_Split s sep) = Suc (count_list s sep)"
  by (simp add: strings_Split_def split_from_length)

lemma set_Append: "set (Append ds new) = set ds \<union> set new"
  by (induction new arbitrary: ds) auto

lemma Append_Nil: "Append ds [] = ds"
  by simp

lemma HasError_iff: "HasError ds \<longleftrightarrow> (\<exists>d \<in> set ds. Severity d = SeverityError)"
  by (simp add: HasError_def list_ex_iff)

lemma HasError_Append: "HasError (Append ds new) \<longleftrightarrow> HasError ds \<or> HasError new"
  by (auto simp: HasError_iff set_Append)

lemma set_AddError:
  "set (AddError ds s d) =
     insert \<lparr>Severity = SeverityError, Summary = s, Detail = d, Path = None\<rparr> (set ds)"
  by (auto simp: AddError_def set_Append)

lemma set_AddAttributeError:
  "set (AddAttributeError ds p s d) =
     insert \<lparr>Severity = SeverityError, Summary = s, Detail = d, Path = Some p\<rparr> (set ds)"
  by (auto simp: AddAttributeError_def set_Append)

lemma HasError_AddError: "HasError (AddError ds s d)"
  by (simp add: HasError_iff set_AddError)

lemma HasError_AddAttributeError: "HasError (AddAttributeError ds p s d)"
  by (simp add: HasError_iff set_AddAttributeError)

section \<open>Identifier codec: round trip and segment count\<close>

text \<open>
  C4. Decoding a dot-joined identifier whose segments hold no dot gives back exactly the
  segments: two for a collection, three for an index (the segments may even be empty).
  An identifier whose split on the dot has not exactly two (collection) or three (index)
  segments is refused with the decode error, and no segments are returned.
\<close>

theorem identifier_codec_roundtrip:
  "(CHR ''.'' \<notin> set a \<and> CHR ''.'' \<notin> set b \<longrightarrow>
      parseCollectionId (a @ ''.'' @ b)
        = Inr \<lparr>collectionId.database = a, collectionId.collection = b\<rparr>)
   \<and> (CHR ''.'' \<notin> set a \<and> CHR ''.'' \<notin> set b \<and> CHR ''.'' \<notin> set c \<longrightarrow>
      parseIndexId (a @ ''.'' @ b @ ''.'' @ c)
        = Inr \<lparr>indexId.database = a, indexId.collection = b, indexName = c\<rparr>)
   \<and> (length (strings_Split s (CHR ''.'')) \<noteq> 2 \<longrightarrow>
      parseCollectionId s = Inl (GoError (''invalid id format: '' @ s)))
   \<and> (length (strings_Split t (CHR ''.'')) \<noteq> 3 \<longrightarrow>
      parseIndexId t
        = Inl (GoError ''Index id's format must be <database>.<collection>.<index_name>''))"
proof (intro conjI impI)
  assume h: "CHR ''.'' \<notin> set a \<and> CHR ''.'' \<notin> set b"
  then have "strings_Split (a @ ''.'' @ b) (CHR ''.'') = [a, b]"
    by (simp add: strings_Split_append strings_Split_no_sep)
  then show "parseCollectionId (a @ ''.'' @ b)
      = Inr \<lparr>collectionId.database = a, collectionId.collection = b\<rparr>"
    by (simp add: parseCollectionId_def)
next
  assume h: "CHR ''.'' \<notin> set a \<and> CHR ''.'' \<notin> set b \<and> CHR ''.'' \<notin> set c"
  then have "strings_Split (a @ ''.'' @ b @ ''.'' @ c) (CHR ''.'') = [a, b, c]"
    by (simp add: strings_Split_append strings_Split_no_sep)
  then show "parseIndexId (a @ ''.'' @ b @ ''.'' @ c)
      = Inr \<lparr>indexId.database = a, indexId.collection = b, indexName = c\<rparr>"
    by (simp add: parseIndexId_def)
next
  assume "length (strings_Split s (CHR ''.'')) \<noteq> 2"
  then show "parseCollectionId s = Inl (GoError (''invalid id format: '' @ s))"
    by (simp add: parseCollectionId_def)
next
  assume "length (strings_Split t (CHR ''.'')) \<noteq> 3"
  then show "parseIndexId t
      = Inl (GoError ''Index id's format must be <database>.<collection>.<index_name>'')"
    by (simp add: parseIndexId_def errors_New_def)
qed

theorem identifier_codec_roundtrip_witness:
  "parseCollectionId ''db.collection''
     = Inr \<lparr>collectionId.database = ''db'', collectionId.collection = ''collection''\<rparr>
   \<and> parseIndexId ''db.collection.idx''
     = Inr \<lparr>indexId.database = ''db'', indexId.collection = ''collection'',
            indexName = ''idx''\<rparr>
   \<and> parseCollectionId ''dbcollection'' = Inl (GoError ''invalid id format: dbcollection'')
   \<and> parseCollectionId ''db.collection.extra''
     = Inl (GoError ''invalid id format: db.collection.extra'')
   \<and> parseIndexId ''db.collection''
     = Inl (GoError ''Index id's format must be <database>.<collection>.<index_name>'')"
  using identifier_codec_roundtrip [of "''db''" "''collection''" "''idx''" "''dbcollection''"
          "''db.collection''"]
        identifier_codec_roundtrip [of "''db''" "''collection''" "''idx''"
          "''db.collection.extra''" "''db.collection''"]
  by (simp add: strings_Split_def)

section \<open>Sort-direction translation\<close>

text \<open>
  C8, as the claim words it, fails: converting back does not map every integer 1 to
  \<^verbatim>\<open>asc\<close>. The type assertion is on \<^verbatim>\<open>int32\<close>, and the value that converting \<^verbatim>\<open>asc\<close> to the
  remote representation yields is the \<^verbatim>\<open>int\<close> 1, which converting back refuses.
\<close>

theorem convertToTfIndexType_int_counterexample:
  "convertToMongoIndexType ''asc'' = GoInt 1
   \<and> convertToTfIndexType (GoInt 1) = Inl (GoError ''typeIndex MUST be int32 or string'')
   \<and> convertToTfIndexType (convertToMongoIndexType ''asc'') \<noteq> Inr ''asc''"
  by (simp add: convertToMongoIndexType_def errors_New_def)

text \<open>
  C8, amended. Converting to the remote representation maps \<^verbatim>\<open>asc\<close> to the \<^verbatim>\<open>int\<close> 1 and
  \<^verbatim>\<open>desc\<close> to the \<^verbatim>\<open>int\<close> -1 and passes any other string through unchanged. Converting back
  maps the \<^verbatim>\<open>int32\<close> 1 to \<^verbatim>\<open>asc\<close> and the \<^verbatim>\<open>int32\<close> -1 to \<^verbatim>\<open>desc\<close>, fails for any other
  \<^verbatim>\<open>int32\<close>, passes any string through unchanged, and fails for every input that is
  neither an \<^verbatim>\<open>int32\<close> nor a string, integers of the other types included; converting back
  the \<^verbatim>\<open>int32\<close> 2 is an error.
\<close>

theorem direction_translation:
  "convertToMongoIndexType ''asc'' = GoInt 1
   \<and> convertToMongoIndexType ''desc'' = GoInt (- 1)
   \<and> (s \<noteq> ''asc'' \<and> s \<noteq> ''desc'' \<longrightarrow> convertToMongoIndexType s = GoString s)
   \<and> convertToTfIndexType (GoInt32 1) = Inr ''asc''
   \<and> convertToTfIndexType (GoInt32 (- 1)) = Inr ''desc''
   \<and> (n \<noteq> 1 \<and> n \<noteq> - 1 \<longrightarrow>
        convertToTfIndexType (GoInt32 n)
          = Inl (GoError ''if typeIndex is int, it MUST have value 1 ou -1''))
   \<and> convertToTfIndexType (GoString s) = Inr s
   \<and> ((\<forall>m. v \<noteq> GoInt32 m) \<and> (\<forall>r. v \<noteq> GoString r) \<longrightarrow>
        convertToTfIndexType v = Inl (GoError ''typeIndex MUST be int32 or string''))
   \<and> convertToTfIndexType (GoInt32 2)
        = Inl (GoError ''if typeIndex is int, it MUST have value 1 ou -1'')"
proof -
  have other: "(\<forall>m. v \<noteq> GoInt32 m) \<and> (\<forall>r. v \<noteq> GoString r) \<longrightarrow>
      convertToTfIndexType v = Inl (GoError ''typeIndex MUST be int32 or string'')"
    by (cases v) (simp_all add: errors_New_def)
  have to_remote: "s \<noteq> ''asc'' \<and> s \<noteq> ''desc'' \<longrightarrow> convertToMongoIndexType s = GoString s"
    by (simp add: convertToMongoIndexType_def)
  show ?thesis
    using other to_remote by (simp add: convertToMongoIndexType_def errors_New_def)
qed

theorem direction_translation_witness:
  "convertToMongoIndexType ''text'' = GoString ''text''
   \<and> convertToTfIndexType (GoInt32 7)
        = Inl (GoError ''if typeIndex is int, it MUST have value 1 ou -1'')
   \<and> convertToTfIndexType (GoInt64 1) = Inl (GoError ''typeIndex MUST be int32 or string'')"
  using direction_translation [of "''text''" 7 "GoInt64 1"]
  by simp

section \<open>Update is refused\<close>

text \<open>
  C5. For each resource kind, \<^verbatim>\<open>Update\<close> adds the error diagnostic titled
  \<^verbatim>\<open>Updates not supported\<close> whatever the request, makes no driver call and leaves the
  state of the response as it was.
\<close>

theorem Update_unsupported:
  "snd (databaseResource_Update client calls req resp) = calls
   \<and> State (fst (databaseResource_Update client calls req resp)) = State resp
   \<and> HasError (Diagnostics (fst (databaseResource_Update client calls req resp)))
   \<and> \<lparr>Severity = SeverityError, Summary = ''Updates not supported'',
       Detail = ''Database updates are not supported. Changes to database configuration require recreation.'',
       Path = None\<rparr> \<in> set (Diagnostics (fst (databaseResource_Update client calls req resp)))
   \<and> snd (collectionResource_Update client calls req resp) = calls
   \<and> State (fst (collectionResource_Update client calls req resp)) = State resp
   \<and> HasError (Diagnostics (fst (collectionResource_Update client calls req resp)))
   \<and> \<lparr>Severity = SeverityError, Summary = ''Updates not supported'',
       Detail = ''Collection updates are not supported. Changes to collection configuration require recreation.'',
       Path = None\<rparr> \<in> set (Diagnostics (fst (collectionResource_Update client calls req resp)))
   \<and> snd (indexResource_Update client calls req resp) = calls
   \<and> State (fst (indexResource_Update client calls req resp)) = State resp
   \<and> HasError (Diagnostics (fst (indexResource_Update client calls req resp)))
   \<and> \<lparr>Severity = SeverityError, Summary = ''Updates not supported'',
       Detail = ''Index updates are not supported. Changes to index configuration require recreation.'',
       Path = None\<rparr> \<in> set (Diagnostics (fst (indexResource_Update client calls req resp)))"
  by (simp add: databaseResource_Update_def collectionResource_Update_def
      indexResource_Update_def HasError_AddError set_AddError)

section \<open>Import\<close>

text \<open>
  C7, as the claim words it, fails for the database kind: its \<^verbatim>\<open>ImportState\<close> does not
  decode the id. An id of two segments is accepted, one segment being expected, and is
  stored whole as the name; no diagnostic is added.
\<close>

theorem databaseResource_ImportState_counterexample:
  "length (strings_Split ''a.b'' (CHR ''.'')) = 2
   \<and> Diagnostics (databaseResource_ImportState ''a.b''
        \<lparr>Diagnostics = [], State = Map.empty\<rparr>) = []
   \<and> State (databaseResource_ImportState ''a.b''
        \<lparr>Diagnostics = [], State = Map.empty\<rparr>) ''name'' = Some ''a.b''"
  by (simp add: databaseResource_ImportState_def SetAttribute_Append_def
      State_SetAttribute_def strings_Split_def)

text \<open>
  C7, amended. For the collection kind (and for the index kind as the specification
  describes it) \<^verbatim>\<open>ImportState\<close> decodes the id with the codec of the kind: when the
  segment count is not the expected one it adds the error diagnostic whose title says
  the id format is invalid and names the expected pattern, and leaves the state as it
  was; otherwise it seeds the identity attributes with the segments, changes no other
  attribute and adds no diagnostic. For the database kind \<^verbatim>\<open>ImportState\<close> decodes nothing:
  it seeds \<^verbatim>\<open>name\<close> with the id as given, changes no other attribute and never fails.
\<close>

theorem ImportState_seeds_identity:
  "(length (strings_Split ID (CHR ''.'')) \<noteq> 2 \<longrightarrow>
      collectionResource_ImportState ID resp
        = resp\<lparr>Diagnostics := AddError (Diagnostics resp)
            ''Invalid id format. Should be <database>.<collection>.''
            (contact_developers ''An unexpected error occurred when importing collection. ''
               (GoError (''invalid id format: '' @ ID)))\<rparr>)
   \<and> (length (strings_Split ID (CHR ''.'')) = 2 \<longrightarrow>
      collectionResource_ImportState ID resp
        = resp\<lparr>State := (State resp)
            (''database'' \<mapsto> strings_Split ID (CHR ''.'') ! 0,
             ''name'' \<mapsto> strings_Split ID (CHR ''.'') ! 1)\<rparr>)
   \<and> (length (strings_Split ID (CHR ''.'')) \<noteq> 3 \<longrightarrow>
      indexResource_ImportState ID resp
        = resp\<lparr>Diagnostics := AddError (Diagnostics resp)
            ''Invalid id format. Should be <database>.<collection>.<index_name>.''
            (contact_developers ''An unexpected error occurred when importing index. ''
               (GoError ''Index id's format must be <database>.<collection>.<index_name>''))\<rparr>)
   \<and> (length (strings_Split ID (CHR ''.'')) = 3 \<longrightarrow>
      indexResource_ImportState ID resp
        = resp\<lparr>State := (State resp)
            (''database'' \<mapsto> strings_Split ID (CHR ''.'') ! 0,
             ''collection'' \<mapsto> strings_Split ID (CHR ''.'') ! 1,
             ''name'' \<mapsto> strings_Split ID (CHR ''.'') ! 2)\<rparr>)
   \<and> databaseResource_ImportState ID resp = resp\<lparr>State := (State resp)(''name'' \<mapsto> ID)\<rparr>"
  by (simp add: collectionResource_ImportState_def indexResource_ImportState_def
      databaseResource_ImportState_def parseCollectionId_def parseIndexId_def
      SetAttribute_Append_def State_SetAttribute_def errors_New_def Let_def)

theorem ImportState_seeds_identity_witness:
  "HasError (Diagnostics (collectionResource_ImportState ''dbcollection''
       \<lparr>Diagnostics = [], State = Map.empty\<rparr>))
   \<and> State (collectionResource_ImportState ''dbcollection''
       \<lparr>Diagnostics = [], State = Map.empty\<rparr>) = Map.empty
   \<and> collectionResource_ImportState ''terraform_test_db.test_collection''
       \<lparr>Diagnostics = [], State = Map.empty\<rparr>
     = \<lparr>Diagnostics = [],
        State = [''database'' \<mapsto> ''terraform_test_db'', ''name'' \<mapsto> ''test_collection'']\<rparr>
   \<and> HasError (Diagnostics (indexResource_ImportState ''db.c''
       \<lparr>Diagnostics = [], State = Map.empty\<rparr>))
   \<and> indexResource_ImportState ''db.c.i'' \<lparr>Diagnostics = [], State = Map.empty\<rparr>
     = \<lparr>Diagnostics = [],
        State = [''database'' \<mapsto> ''db'', ''collection'' \<mapsto> ''c'', ''name'' \<mapsto> ''i'']\<rparr>"
  using ImportState_seeds_identity [of "''dbcollection''" "\<lparr>Diagnostics = [], State = Map.empty\<rparr>"]
        ImportState_seeds_identity [of "''terraform_test_db.test_collection''"
          "\<lparr>Diagnostics = [], State = Map.empty\<rparr>"]
        ImportState_seeds_identity [of "''db.c''" "\<lparr>Diagnostics = [], State = Map.empty\<rparr>"]
        ImportState_seeds_identity [of "''db.c.i''" "\<lparr>Diagnostics = [], State = Map.empty\<rparr>"]
  by (simp add: strings_Split_def HasError_AddError)

section \<open>Proxy resolution\<close>

text \<open>
  C3 at the empty proxy string. The \<^verbatim>\<open>proxyDialer\<close> that \<^verbatim>\<open>Configure\<close> is compiled
  with parses the empty string and asks \<^verbatim>\<open>proxy.FromURL\<close> for a dialer: whatever the
  libraries answer, the result is an error or a dialer, never Go's \<^verbatim>\<open>nil, nil\<close>. The
  guarded copy returns \<^verbatim>\<open>nil, nil\<close> there without calling a library. With libraries
  that refuse a URL without scheme, \<^verbatim>\<open>Configure\<close> on the URL-only provider block of the
  tests, which names no proxy, stops at the proxy resolution with the error
  \<^verbatim>\<open>Unable to create proxy dialer\<close> and never attempts the connection.
\<close>

theorem proxyDialer_empty_proxy:
  "proxyDialer lib [] \<noteq> Inr None
   \<and> proxyDialer_guarded lib [] = Inr None
   \<and> ValueString (Proxy providerConfigWithURL) = []
   \<and> Configure testLibraries \<lparr>Config = ([], providerConfigWithURL)\<rparr> freshConfigureResponse
     = (\<lparr>Diagnostics =
           [\<lparr>Severity = SeverityError, Summary = ''Unable to create proxy dialer'',
             Detail = contact_developers
               ''An unexpected error occurred when creating the proxy dialer. ''
               (GoError ''proxy: unknown scheme: ''),
             Path = None\<rparr>],
         DataSourceData = None, ResourceData = None\<rparr>,
        [ProxyResolution []])"
proof -
  have copies: "proxyDialer lib [] \<noteq> Inr None \<and> proxyDialer_guarded lib [] = Inr None"
    by (simp add: proxyDialer_def proxyDialer_guarded_def split: sum.splits)
  have run: "Configure testLibraries \<lparr>Config = ([], providerConfigWithURL)\<rparr>
        freshConfigureResponse
      = (\<lparr>Diagnostics =
            [\<lparr>Severity = SeverityError, Summary = ''Unable to create proxy dialer'',
              Detail = contact_developers
                ''An unexpected error occurred when creating the proxy dialer. ''
                (GoError ''proxy: unknown scheme: ''),
              Path = None\<rparr>],
          DataSourceData = None, ResourceData = None\<rparr>,
         [ProxyResolution []])"
    by (simp add: Configure_def Let_def proxyDialer_def testLibraries_def
        providerConfigWithURL_def emptyConfig_def freshConfigureResponse_def HasError_def
        AddError_def)
  show ?thesis
    using copies run by (simp add: providerConfigWithURL_def emptyConfig_def)
qed

text \<open>
  What both copies share: a proxy string that does not parse, or whose scheme
  \<^verbatim>\<open>proxy.FromURL\<close> does not support, gives the library's error.
\<close>

lemma proxyDialer_errors:
  "(url_Parse lib p = Inl e \<longrightarrow> proxyDialer lib p = Inl e)
   \<and> (url_Parse lib p = Inr u \<and> proxy_FromURL lib u = Inl e \<longrightarrow> proxyDialer lib p = Inl e)
   \<and> (p \<noteq> [] \<longrightarrow> proxyDialer_guarded lib p = proxyDialer lib p)"
  by (simp add: proxyDialer_def proxyDialer_guarded_def)


lemma Configure_proxy_error:
  "\<not> HasError (Append (Diagnostics resp) (fst (Config req))) \<Longrightarrow>
   (ValueString (Url (snd (Config req))) = []) \<noteq> (ValueString (Host (snd (Config req))) = [])
   \<Longrightarrow> proxyDialer lib (ValueString (Proxy (snd (Config req)))) = Inl e \<Longrightarrow>
   Configure lib req resp
     = (resp\<lparr>Diagnostics := AddError (Append (Diagnostics resp) (fst (Config req)))
          ''Unable to create proxy dialer''
          (contact_developers
             ''An unexpected error occurred when creating the proxy dialer. '' e)\<rparr>,
        [ProxyResolution (ValueString (Proxy (snd (Config req))))])"
  by (auto simp: Configure_def Let_def)

section \<open>Connection resolver: validation of host and url\<close>

lemma not_ConfigurationError_AddError:
  "s \<noteq> ''Missing host or url'' \<Longrightarrow> s \<noteq> ''Conflicting host and url'' \<Longrightarrow>
   list_ex ConfigurationError (AddError ds s d) = list_ex ConfigurationError ds"
  by (auto simp: list_ex_iff set_AddError ConfigurationError_def)

lemma not_ConfigurationError_initial:
  "\<not> HasError ds \<Longrightarrow> \<not> list_ex ConfigurationError ds"
  by (auto simp: HasError_iff list_ex_iff ConfigurationError_def)

text \<open>
  C1. Let the configuration be read without error. When neither \<^verbatim>\<open>url\<close> nor \<^verbatim>\<open>host\<close> is
  set, \<^verbatim>\<open>Configure\<close> adds the error \<^verbatim>\<open>Missing host or url\<close> at the attribute \<^verbatim>\<open>host\<close>;
  when both are set, the error \<^verbatim>\<open>Conflicting host and url\<close>; in both cases no proxy
  resolution, TLS setup or connection attempt has been made and no client is handed
  on. When exactly one of them is set, no diagnostic of the response is one of these two
  configuration errors.
\<close>

theorem Configure_host_url_validation:
  assumes "\<not> HasError (Diagnostics resp)" and "\<not> HasError (fst (Config req))"
  shows "(ValueString (Url (snd (Config req))) = []
            \<and> ValueString (Host (snd (Config req))) = [] \<longrightarrow>
          snd (Configure lib req resp) = []
          \<and> list_ex (\<lambda>d. Severity d = SeverityError \<and> Summary d = ''Missing host or url''
                \<and> Path d = Some ''host'') (Diagnostics (fst (Configure lib req resp)))
          \<and> ResourceData (fst (Configure lib req resp)) = ResourceData resp
          \<and> DataSourceData (fst (Configure lib req resp)) = DataSourceData resp)
       \<and> (ValueString (Url (snd (Config req))) \<noteq> []
            \<and> ValueString (Host (snd (Config req))) \<noteq> [] \<longrightarrow>
          snd (Configure lib req resp) = []
          \<and> list_ex (\<lambda>d. Severity d = SeverityError \<and> Summary d = ''Conflicting host and url''
                \<and> Path d = Some ''host'') (Diagnostics (fst (Configure lib req resp)))
          \<and> ResourceData (fst (Configure lib req resp)) = ResourceData resp
          \<and> DataSourceData (fst (Configure lib req resp)) = DataSourceData resp)
       \<and> ((ValueString (Url (snd (Config req))) = [])
            \<noteq> (ValueString (Host (snd (Config req))) = []) \<longrightarrow>
          \<not> list_ex ConfigurationError (Diagnostics (fst (Configure lib req resp))))"
proof -
  let ?ds = "Append (Diagnostics resp) (fst (Config req))"
  have ok: "\<not> HasError ?ds"
    using assms by (simp add: HasError_Append)
  have clean: "\<not> list_ex ConfigurationError ?ds"
    using ok by (rule not_ConfigurationError_initial)
  have neither: "ValueString (Url (snd (Config req))) = []
      \<and> ValueString (Host (snd (Config req))) = [] \<longrightarrow>
      snd (Configure lib req resp) = []
      \<and> list_ex (\<lambda>d. Severity d = SeverityError \<and> Summary d = ''Missing host or url''
            \<and> Path d = Some ''host'') (Diagnostics (fst (Configure lib req resp)))
      \<and> ResourceData (fst (Configure lib req resp)) = ResourceData resp
      \<and> DataSourceData (fst (Configure lib req resp)) = DataSourceData resp"
    using ok by (simp add: Configure_def Let_def list_ex_iff set_AddAttributeError)
  have both: "ValueString (Url (snd (Config req))) \<noteq> []
      \<and> ValueString (Host (snd (Config req))) \<noteq> [] \<longrightarrow>
      snd (Configure lib req resp) = []
      \<and> list_ex (\<lambda>d. Severity d = SeverityError \<and> Summary d = ''Conflicting host and url''
            \<and> Path d = Some ''host'') (Diagnostics (fst (Configure lib req resp)))
      \<and> ResourceData (fst (Configure lib req resp)) = ResourceData resp
      \<and> DataSourceData (fst (Configure lib req resp)) = DataSourceData resp"
    using ok by (simp add: Configure_def Let_def list_ex_iff set_AddAttributeError)
  have one: "(ValueString (Url (snd (Config req))) = [])
      \<noteq> (ValueString (Host (snd (Config req))) = []) \<longrightarrow>
      \<not> list_ex ConfigurationError (Diagnostics (fst (Configure lib req resp)))"
    using ok clean
    by (auto simp: Configure_def Let_def connectClient_def not_ConfigurationError_AddError
        split: sum.splits option.splits prod.splits)
  show ?thesis
    using neither both one by blast
qed

theorem Configure_host_url_validation_witness:
  "snd (Configure testLibraries \<lparr>Config = ([], emptyConfig)\<rparr> freshConfigureResponse) = []
   \<and> list_ex (\<lambda>d. Severity d = SeverityError \<and> Summary d = ''Missing host or url''
         \<and> Path d = Some ''host'')
       (Diagnostics (fst (Configure testLibraries \<lparr>Config = ([], emptyConfig)\<rparr>
          freshConfigureResponse)))
   \<and> snd (Configure testLibraries \<lparr>Config = ([], conflictingConfig)\<rparr>
        freshConfigureResponse) = []
   \<and> list_ex (\<lambda>d. Severity d = SeverityError \<and> Summary d = ''Conflicting host and url''
         \<and> Path d = Some ''host'')
       (Diagnostics (fst (Configure testLibraries \<lparr>Config = ([], conflictingConfig)\<rparr>
          freshConfigureResponse)))
   \<and> \<not> list_ex ConfigurationError (Diagnostics (fst (Configure testLibraries
        \<lparr>Config = ([], providerConfigWithURL)\<rparr> freshConfigureResponse)))"
proof -
  have fresh: "\<not> HasError (Diagnostics freshConfigureResponse)"
    by (simp add: freshConfigureResponse_def HasError_def)
  have read: "\<And>c. \<not> HasError (fst (Config \<lparr>Config = ([], c :: mongodbProviderModel)\<rparr>))"
    by (simp add: HasError_def)
  show ?thesis
    using Configure_host_url_validation [OF fresh read, of emptyConfig testLibraries]
          Configure_host_url_validation [OF fresh read, of conflictingConfig testLibraries]
          Configure_host_url_validation [OF fresh read, of providerConfigWithURL testLibraries]
    by (simp add: emptyConfig_def conflictingConfig_def providerConfigWithURL_def)
qed

section \<open>Connection resolver: the URI\<close>

lemma Configure_connects_with:
  "ConnectionAttempt opts \<in> set (snd (Configure lib req resp)) \<Longrightarrow>
   URI opts = connectionURI (snd (Config req))
   \<and> Auth opts = \<lparr>AuthSource = ValueString (AuthDatabase (snd (Config req))),
                   Cred_Username = ValueString (Username (snd (Config req))),
                   Cred_Password = ValueString (Password (snd (Config req)))\<rparr>
   \<and> (TLSConfig opts \<noteq> None \<longleftrightarrow> ValueString (Certificate (snd (Config req))) \<noteq> [])
   \<and> (\<forall>t. TLSConfig opts = Some t \<longrightarrow>
         tls_InsecureSkipVerify t = ValueBool (InsecureSkipVerify (snd (Config req)))
         \<and> RootCAs t = certsFromPEM lib (ValueString (Certificate (snd (Config req)))))
   \<and> proxyDialer lib (ValueString (Proxy (snd (Config req)))) = Inr (Dialer opts)"
  by (auto simp: Configure_def Let_def connectClient_def clientOptions_def
      getTLSConfigWithAllServerCertificates_def
      split: if_splits sum.splits option.splits prod.splits)

text \<open>
  C2. When \<^verbatim>\<open>url\<close> is absent the URI is \<^verbatim>\<open>mongodb://\<close>, host, a colon, port, and the
  query tail of the specification: \<^verbatim>\<open>retrywrites\<close> always, then \<^verbatim>\<open>ssl=true\<close> if ssl, then
  \<^verbatim>\<open>replicaSet\<close> if a replica set is named and direct is off, then \<^verbatim>\<open>connect=direct\<close>
  if direct, joined with \<^verbatim>\<open>&\<close> after \<^verbatim>\<open>/?\<close>. It is the URI of the connection attempt of
  \<^verbatim>\<open>Configure\<close>. With a replica set and direct both set, only \<^verbatim>\<open>connect=direct\<close> follows
  the leading arguments.
\<close>

theorem connection_uri_assembly:
  "(ValueString (Url config) = [] \<longrightarrow>
      connectionURI config
        = ''mongodb://'' @ ValueString (Host config) @ '':'' @ ValueString (Port config)
            @ spec_query_tail (ValueBool (RetryWrites config)) (ValueBool (SSL config))
                (ValueString (ReplicaSet config)) (ValueBool (Direct config)))
   \<and> (ConnectionAttempt opts \<in> set (snd (Configure lib req resp)) \<longrightarrow>
        URI opts = connectionURI (snd (Config req)))
   \<and> (rs \<noteq> [] \<longrightarrow>
        spec_query_tail rw ssl rs True
          = ''/?retrywrites='' @ (if rw then ''true'' else ''false'')
              @ (if ssl then ''&ssl=true'' else []) @ ''&connect=direct'')"
proof -
  have tail: "ValueString (Url config) = [] \<longrightarrow>
      connectionURI config
        = ''mongodb://'' @ ValueString (Host config) @ '':'' @ ValueString (Port config)
            @ spec_query_tail (ValueBool (RetryWrites config)) (ValueBool (SSL config))
                (ValueString (ReplicaSet config)) (ValueBool (Direct config))"
    by (simp add: connectionURI_def addArgs_def spec_query_tail_def spec_arguments_def
        strconv_FormatBool_def Let_def)
  have passed: "ConnectionAttempt opts \<in> set (snd (Configure lib req resp)) \<longrightarrow>
      URI opts = connectionURI (snd (Config req))"
    using Configure_connects_with [of opts lib req resp] by blast
  have direct: "rs \<noteq> [] \<longrightarrow>
      spec_query_tail rw ssl rs True
        = ''/?retrywrites='' @ (if rw then ''true'' else ''false'')
            @ (if ssl then ''&ssl=true'' else []) @ ''&connect=direct''"
    by (simp add: spec_query_tail_def spec_arguments_def)
  show ?thesis
    using tail passed direct by blast
qed

lemmas run_Configure =
  Configure_def Let_def connectClient_def clientOptions_def connectionURI_def addArgs_def
  strconv_FormatBool_def proxyDialer_def getTLSConfigWithAllServerCertificates_def
  errors_New_def testLibraries_def freshConfigureResponse_def HasError_def
  emptyConfig_def providerConfig_def proxiedConfig_def certifiedConfig_def
  unreadableCertificateConfig_def

theorem connection_uri_assembly_witness:
  "ValueString (Url providerConfig) = []
   \<and> connectionURI providerConfig = ''mongodb://localhost:27017/?retrywrites=false''
   \<and> ConnectionAttempt
         (clientOptions proxiedConfig ''mongodb://localhost:27017/?retrywrites=false'' None
            (Some ''socks5://proxy:1080''))
       \<in> set (snd (Configure testLibraries \<lparr>Config = ([], proxiedConfig)\<rparr>
                  freshConfigureResponse))
   \<and> connectionURI proxiedConfig = ''mongodb://localhost:27017/?retrywrites=false''
   \<and> spec_query_tail True True ''rs0'' True = ''/?retrywrites=true&ssl=true&connect=direct''"
proof -
  let ?opts = "clientOptions proxiedConfig ''mongodb://localhost:27017/?retrywrites=false''
      None (Some ''socks5://proxy:1080'') :: (string, string) ClientOptions"
  let ?req = "\<lparr>Config = ([], proxiedConfig)\<rparr>"
  note th = connection_uri_assembly [of providerConfig ?opts testLibraries ?req
      freshConfigureResponse "''rs0''" True True]
  have absent: "ValueString (Url providerConfig) = []"
    by (simp add: providerConfig_def emptyConfig_def)
  have run: "ConnectionAttempt ?opts
      \<in> set (snd (Configure testLibraries ?req freshConfigureResponse))"
    by (simp add: run_Configure)
  have "connectionURI providerConfig = ''mongodb://localhost:27017/?retrywrites=false''"
    using th [THEN conjunct1, THEN mp, OF absent]
    by (simp add: providerConfig_def emptyConfig_def spec_query_tail_def spec_arguments_def)
  moreover have "connectionURI proxiedConfig = ''mongodb://localhost:27017/?retrywrites=false''"
    using th [THEN conjunct2, THEN conjunct1, THEN mp, OF run]
    by (simp add: clientOptions_def)
  moreover have "spec_query_tail True True ''rs0'' True
      = ''/?retrywrites=true&ssl=true&connect=direct''"
    using th [THEN conjunct2, THEN conjunct2, THEN mp] by simp
  ultimately show ?thesis
    using absent run by simp
qed

section \<open>Connection resolver: TLS only with a certificate\<close>


lemma lone_line_not_testCA: "''-----BEGIN CERTIFICATE-----'' \<noteq> testCA"
  by (simp add: testCA_def)



lemma Configure_unreadable_certificate:
  assumes "\<not> HasError (Append (Diagnostics resp) (fst (Config req)))"
    and "(ValueString (Url (snd (Config req))) = [])
           \<noteq> (ValueString (Host (snd (Config req))) = [])"
    and "proxyDialer lib (ValueString (Proxy (snd (Config req)))) = Inr dialer"
    and "ValueString (Certificate (snd (Config req))) \<noteq> []"
    and "certsFromPEM lib (ValueString (Certificate (snd (Config req)))) = []"
  shows "Configure lib req resp
    = (resp\<lparr>Diagnostics := AddError (Append (Diagnostics resp) (fst (Config req)))
          ''Unable to read certificate''
          (contact_developers ''An unexpected error occurred when reading the certificate. ''
             (GoError ''Failed parsing pem file''))\<rparr>,
       [ProxyResolution (ValueString (Proxy (snd (Config req)))),
        TLSSetup (ValueString (Certificate (snd (Config req))))
          (ValueBool (InsecureSkipVerify (snd (Config req))))])"
  using assms
  by (auto simp: Configure_def Let_def getTLSConfigWithAllServerCertificates_def
      errors_New_def)

lemma Configure_lone_line_certificate:
  "Configure testLibraries \<lparr>Config = ([], unreadableCertificateConfig)\<rparr>
     freshConfigureResponse
   = (\<lparr>Diagnostics =
         [\<lparr>Severity = SeverityError, Summary = ''Unable to read certificate'',
           Detail = contact_developers
             ''An unexpected error occurred when reading the certificate. ''
             (GoError ''Failed parsing pem file''),
           Path = None\<rparr>],
       DataSourceData = None, ResourceData = None\<rparr>,
      [ProxyResolution ''socks5://proxy:1080'',
       TLSSetup ''-----BEGIN CERTIFICATE-----'' True])"
  by (simp add: run_Configure AddError_def lone_line_not_testCA)



section \<open>Database Create\<close>

text \<open>
  C6. Let the plan be read without error. Database \<^verbatim>\<open>Create\<close> first creates the
  collection \<^verbatim>\<open>_terraform_created\<close> in the named database. If that fails, nothing else
  is called and the error \<^verbatim>\<open>Unable to create database\<close> is added. Otherwise it drops that
  collection next; if the drop fails, the error \<^verbatim>\<open>Unable to clean up dummy collection\<close>
  is added, and the state is not written although the database exists. If both succeed,
  the state is the plan with the identifier set to the database name, and no diagnostic
  is added.
\<close>

theorem databaseResource_Create_steps:
  assumes "\<not> HasError (Diagnostics resp)" and "\<not> HasError (fst (Data req))"
  shows "(run client calls
            (CreateCollection (databaseResourceModel.Name (snd (Data req)))
               ''_terraform_created'' None) = Some err \<longrightarrow>
          snd (databaseResource_Create client calls req resp)
            = calls @ [CreateCollection (databaseResourceModel.Name (snd (Data req)))
                         ''_terraform_created'' None]
          \<and> State (fst (databaseResource_Create client calls req resp)) = State resp
          \<and> Diagnostics (fst (databaseResource_Create client calls req resp))
              = AddError (Append (Diagnostics resp) (fst (Data req)))
                  ''Unable to create database''
                  (contact_developers
                     ''An unexpected error occurred when creating database. '' err))
       \<and> (run client calls
            (CreateCollection (databaseResourceModel.Name (snd (Data req)))
               ''_terraform_created'' None) = None
          \<and> run client
              (calls @ [CreateCollection (databaseResourceModel.Name (snd (Data req)))
                          ''_terraform_created'' None])
              (DropCollection (databaseResourceModel.Name (snd (Data req)))
                 ''_terraform_created'') = Some err \<longrightarrow>
          snd (databaseResource_Create client calls req resp)
            = calls @ [CreateCollection (databaseResourceModel.Name (snd (Data req)))
                         ''_terraform_created'' None,
                       DropCollection (databaseResourceModel.Name (snd (Data req)))
                         ''_terraform_created'']
          \<and> State (fst (databaseResource_Create client calls req resp)) = State resp
          \<and> Diagnostics (fst (databaseResource_Create client calls req resp))
              = AddError (Append (Diagnostics resp) (fst (Data req)))
                  ''Unable to clean up dummy collection''
                  (contact_developers ''An unexpected error occurred when cleaning up. '' err))
       \<and> (run client calls
            (CreateCollection (databaseResourceModel.Name (snd (Data req)))
               ''_terraform_created'' None) = None
          \<and> run client
              (calls @ [CreateCollection (databaseResourceModel.Name (snd (Data req)))
                          ''_terraform_created'' None])
              (DropCollection (databaseResourceModel.Name (snd (Data req)))
                 ''_terraform_created'') = None \<longrightarrow>
          snd (databaseResource_Create client calls req resp)
            = calls @ [CreateCollection (databaseResourceModel.Name (snd (Data req)))
                         ''_terraform_created'' None,
                       DropCollection (databaseResourceModel.Name (snd (Data req)))
                         ''_terraform_created'']
          \<and> State (fst (databaseResource_Create client calls req resp))
              = Some \<lparr>databaseResourceModel.Name = databaseResourceModel.Name (snd (Data req)),
                      databaseResourceModel.Id
                        = StringValue (databaseResourceModel.Name (snd (Data req)))\<rparr>
          \<and> Diagnostics (fst (databaseResource_Create client calls req resp))
              = Append (Diagnostics resp) (fst (Data req)))"
proof -
  have ok: "\<not> HasError (Append (Diagnostics resp) (fst (Data req)))"
    using assms by (simp add: HasError_Append)
  show ?thesis
    using ok
    by (simp add: databaseResource_Create_def db_CreateCollection_def collection_Drop_def
        Let_def)
qed

theorem databaseResource_Create_steps_witness:
  "databaseResource_Create acceptingClient [] test_db_new freshResponse
     = (\<lparr>Diagnostics = [],
         State = Some \<lparr>databaseResourceModel.Name = ''test_db_new'',
                       databaseResourceModel.Id = StringValue ''test_db_new''\<rparr>\<rparr>,
        [CreateCollection ''test_db_new'' ''_terraform_created'' None,
         DropCollection ''test_db_new'' ''_terraform_created''])
   \<and> snd (databaseResource_Create refusingClient [] test_db_new freshResponse)
     = [CreateCollection ''test_db_new'' ''_terraform_created'' None,
        DropCollection ''test_db_new'' ''_terraform_created'']
   \<and> State (fst (databaseResource_Create refusingClient [] test_db_new freshResponse)) = None
   \<and> HasError (Diagnostics (fst (databaseResource_Create refusingClient [] test_db_new
        freshResponse)))
   \<and> snd (databaseResource_Create deniedClient [] test_db_new freshResponse)
     = [CreateCollection ''test_db_new'' ''_terraform_created'' None]
   \<and> State (fst (databaseResource_Create deniedClient [] test_db_new freshResponse)) = None
   \<and> HasError (Diagnostics (fst (databaseResource_Create deniedClient [] test_db_new
        freshResponse)))"
proof -
  have fresh: "\<not> HasError (Diagnostics (freshResponse :: databaseResourceModel option Response))"
    by (simp add: freshResponse_def HasError_def)
  have read: "\<not> HasError (fst (Data test_db_new))"
    by (simp add: test_db_new_def HasError_def)
  note th = databaseResource_Create_steps [OF fresh read]
  have accepted: "databaseResource_Create acceptingClient [] test_db_new freshResponse
      = (\<lparr>Diagnostics = [],
          State = Some \<lparr>databaseResourceModel.Name = ''test_db_new'',
                        databaseResourceModel.Id = StringValue ''test_db_new''\<rparr>\<rparr>,
         [CreateCollection ''test_db_new'' ''_terraform_created'' None,
          DropCollection ''test_db_new'' ''_terraform_created''])"
    using th [of acceptingClient "[]" "GoError ''not authorized''",
              THEN conjunct2, THEN conjunct2]
    by (simp add: acceptingClient_def test_db_new_def freshResponse_def prod_eq_iff)
  have refused: "snd (databaseResource_Create refusingClient [] test_db_new freshResponse)
        = [CreateCollection ''test_db_new'' ''_terraform_created'' None,
           DropCollection ''test_db_new'' ''_terraform_created'']
      \<and> State (fst (databaseResource_Create refusingClient [] test_db_new freshResponse)) = None
      \<and> HasError (Diagnostics (fst (databaseResource_Create refusingClient [] test_db_new
           freshResponse)))"
    using th [of refusingClient "[]" "GoError ''not authorized''",
              THEN conjunct2, THEN conjunct1]
    by (simp add: refusingClient_def test_db_new_def freshResponse_def HasError_AddError)
  have denied: "snd (databaseResource_Create deniedClient [] test_db_new freshResponse)
        = [CreateCollection ''test_db_new'' ''_terraform_created'' None]
      \<and> State (fst (databaseResource_Create deniedClient [] test_db_new freshResponse)) = None
      \<and> HasError (Diagnostics (fst (databaseResource_Create deniedClient [] test_db_new
           freshResponse)))"
    using th [of deniedClient "[]" "GoError ''not authorized''", THEN conjunct1]
    by (simp add: deniedClient_def test_db_new_def freshResponse_def HasError_AddError)
  show ?thesis
    using accepted refused denied by simp
qed

section \<open>No state after a failed remote step\<close>

lemma databaseResource_Create_atomic:
  "snd (databaseResource_Create client calls req resp)
     = calls @ drop (length calls) (snd (databaseResource_Create client calls req resp))
   \<and> (any_step_failed client assigned calls
         (drop (length calls) (snd (databaseResource_Create client calls req resp))) \<longrightarrow>
       HasError (Diagnostics (fst (databaseResource_Create client calls req resp)))
       \<and> State (fst (databaseResource_Create client calls req resp)) = State resp)"
  by (auto simp: databaseResource_Create_def db_CreateCollection_def collection_Drop_def
      Let_def HasError_AddError split: option.splits)

lemma databaseResource_Read_atomic:
  "snd (databaseResource_Read client calls req resp)
     = calls @ drop (length calls) (snd (databaseResource_Read client calls req resp))
   \<and> (any_step_failed client assigned calls
         (drop (length calls) (snd (databaseResource_Read client calls req resp))) \<longrightarrow>
       HasError (Diagnostics (fst (databaseResource_Read client calls req resp)))
       \<and> State (fst (databaseResource_Read client calls req resp)) = State resp)"
  by (auto simp: databaseResource_Read_def client_ListDatabaseNames_def
      Let_def HasError_AddError split: sum.splits)

lemma collectionResource_Create_atomic:
  "snd (collectionResource_Create client calls req resp)
     = calls @ drop (length calls) (snd (collectionResource_Create client calls req resp))
   \<and> (any_step_failed client assigned calls
         (drop (length calls) (snd (collectionResource_Create client calls req resp))) \<longrightarrow>
       HasError (Diagnostics (fst (collectionResource_Create client calls req resp)))
       \<and> State (fst (collectionResource_Create client calls req resp)) = State resp)"
  by (auto simp: collectionResource_Create_def db_CreateCollection_def
      Let_def HasError_AddError split: option.splits)

lemma collectionResource_Read_atomic:
  "snd (collectionResource_Read client calls req resp)
     = calls @ drop (length calls) (snd (collectionResource_Read client calls req resp))
   \<and> (any_step_failed client assigned calls
         (drop (length calls) (snd (collectionResource_Read client calls req resp))) \<longrightarrow>
       HasError (Diagnostics (fst (collectionResource_Read client calls req resp)))
       \<and> State (fst (collectionResource_Read client calls req resp)) = State resp)"
  by (auto simp: collectionResource_Read_def db_ListCollectionNames_def
      Let_def HasError_AddError split: sum.splits)

lemma indexResource_Create_atomic:
  "snd (indexResource_Create client assigned calls req resp)
     = calls @ drop (length calls) (snd (indexResource_Create client assigned calls req resp))
   \<and> (any_step_failed client assigned calls
         (drop (length calls) (snd (indexResource_Create client assigned calls req resp))) \<longrightarrow>
       HasError (Diagnostics (fst (indexResource_Create client assigned calls req resp)))
       \<and> State (fst (indexResource_Create client assigned calls req resp)) = State resp)"
  by (auto simp: indexResource_Create_def collection_CreateIndex_def
      Let_def HasError_AddError split: sum.splits)

lemma indexResource_Read_atomic:
  "snd (indexResource_Read client calls req resp)
     = calls @ drop (length calls) (snd (indexResource_Read client calls req resp))
   \<and> (any_step_failed client assigned calls
         (drop (length calls) (snd (indexResource_Read client calls req resp))) \<longrightarrow>
       HasError (Diagnostics (fst (indexResource_Read client calls req resp)))
       \<and> State (fst (indexResource_Read client calls req resp)) = State resp)"
  by (auto simp: indexResource_Read_def collection_ListIndexes_def
      Let_def HasError_AddError split: sum.splits)

text \<open>
  C9. For each resource kind, the driver calls \<^verbatim>\<open>Create\<close> and \<^verbatim>\<open>Read\<close> make are added to
  the calls made before, and if any of them returned an error (the creation of the
  marker collection or its drop, the creation of the collection or the index, the
  listing of a read) the response holds an error diagnostic and its state is the state
  it came with: nothing was written.
\<close>

theorem no_state_after_failed_step:
  "(snd (databaseResource_Create client calls dreq dresp)
      = calls @ drop (length calls) (snd (databaseResource_Create client calls dreq dresp))
    \<and> (any_step_failed client assigned calls
          (drop (length calls) (snd (databaseResource_Create client calls dreq dresp))) \<longrightarrow>
        HasError (Diagnostics (fst (databaseResource_Create client calls dreq dresp)))
        \<and> State (fst (databaseResource_Create client calls dreq dresp)) = State dresp))
   \<and> (snd (databaseResource_Read client calls dreq dresp)
      = calls @ drop (length calls) (snd (databaseResource_Read client calls dreq dresp))
    \<and> (any_step_failed client assigned calls
          (drop (length calls) (snd (databaseResource_Read client calls dreq dresp))) \<longrightarrow>
        HasError (Diagnostics (fst (databaseResource_Read client calls dreq dresp)))
        \<and> State (fst (databaseResource_Read client calls dreq dresp)) = State dresp))
   \<and> (snd (collectionResource_Create client calls creq cresp)
      = calls @ drop (length calls) (snd (collectionResource_Create client calls creq cresp))
    \<and> (any_step_failed client assigned calls
          (drop (length calls) (snd (collectionResource_Create client calls creq cresp))) \<longrightarrow>
        HasError (Diagnostics (fst (collectionResource_Create client calls creq cresp)))
        \<and> State (fst (collectionResource_Create client calls creq cresp)) = State cresp))
   \<and> (snd (collectionResource_Read client calls creq cresp)
      = calls @ drop (length calls) (snd (collectionResource_Read client calls creq cresp))
    \<and> (any_step_failed client assigned calls
          (drop (length calls) (snd (collectionResource_Read client calls creq cresp))) \<longrightarrow>
        HasError (Diagnostics (fst (collectionResource_Read client calls creq cresp)))
        \<and> State (fst (collectionResource_Read client calls creq cresp)) = State cresp))
   \<and> (snd (indexResource_Create client assigned calls ireq iresp)
      = calls @ drop (length calls) (snd (indexResource_Create client assigned calls ireq iresp))
    \<and> (any_step_failed client assigned calls
          (drop (length calls) (snd (indexResource_Create client assigned calls ireq iresp))) \<longrightarrow>
        HasError (Diagnostics (fst (indexResource_Create client assigned calls ireq iresp)))
        \<and> State (fst (indexResource_Create client assigned calls ireq iresp)) = State iresp))
   \<and> (snd (indexResource_Read client calls ireq iresp)
      = calls @ drop (length calls) (snd (indexResource_Read client calls ireq iresp))
    \<and> (any_step_failed client assigned calls
          (drop (length calls) (snd (indexResource_Read client calls ireq iresp))) \<longrightarrow>
        HasError (Diagnostics (fst (indexResource_Read client calls ireq iresp)))
        \<and> State (fst (indexResource_Read client calls ireq iresp)) = State iresp))"
  using databaseResource_Create_atomic [of client calls dreq dresp assigned]
        databaseResource_Read_atomic [of client calls dreq dresp assigned]
        collectionResource_Create_atomic [of client calls creq cresp assigned]
        collectionResource_Read_atomic [of client calls creq cresp assigned]
        indexResource_Create_atomic [of client assigned calls ireq iresp]
        indexResource_Read_atomic [of client calls ireq iresp assigned]
  by blast

lemmas run_resources =
  databaseResource_Create_def databaseResource_Read_def collectionResource_Create_def
  collectionResource_Read_def indexResource_Create_def indexResource_Read_def
  db_CreateCollection_def collection_Drop_def client_ListDatabaseNames_def
  db_ListCollectionNames_def collection_CreateIndex_def collection_ListIndexes_def
  Let_def HasError_def AddError_def refusingClient_def deniedClient_def
  failingAssignment_def freshResponse_def test_db_new_def test_collection_def
  test_index_def convertToMongoIndexType_def

theorem no_state_after_failed_step_witness:
  "any_step_failed refusingClient failingAssignment []
      (snd (databaseResource_Create refusingClient [] test_db_new freshResponse))
   \<and> State (fst (databaseResource_Create refusingClient [] test_db_new freshResponse)) = None
   \<and> HasError (Diagnostics (fst (databaseResource_Create refusingClient [] test_db_new
        freshResponse)))
   \<and> State (fst (databaseResource_Read deniedClient [] test_db_new freshResponse)) = None
   \<and> HasError (Diagnostics (fst (databaseResource_Read deniedClient [] test_db_new
        freshResponse)))
   \<and> State (fst (collectionResource_Create deniedClient [] test_collection freshResponse))
       = None
   \<and> HasError (Diagnostics (fst (collectionResource_Create deniedClient [] test_collection
        freshResponse)))
   \<and> State (fst (collectionResource_Read deniedClient [] test_collection freshResponse))
       = None
   \<and> HasError (Diagnostics (fst (collectionResource_Read deniedClient [] test_collection
        freshResponse)))
   \<and> State (fst (indexResource_Create deniedClient failingAssignment [] test_index
        freshResponse)) = None
   \<and> HasError (Diagnostics (fst (indexResource_Create deniedClient failingAssignment []
        test_index freshResponse)))
   \<and> State (fst (indexResource_Read deniedClient [] test_index freshResponse)) = None
   \<and> HasError (Diagnostics (fst (indexResource_Read deniedClient [] test_index
        freshResponse)))"
proof -
  note cleanup = no_state_after_failed_step [of refusingClient "[]" test_db_new freshResponse
      failingAssignment test_collection freshResponse test_index freshResponse]
  note denied = no_state_after_failed_step [of deniedClient "[]" test_db_new freshResponse
      failingAssignment test_collection freshResponse test_index freshResponse]
  have dropped: "any_step_failed refusingClient failingAssignment []
      (snd (databaseResource_Create refusingClient [] test_db_new freshResponse))"
    by (simp add: run_resources)
  have d1: "any_step_failed deniedClient failingAssignment []
      (snd (databaseResource_Read deniedClient [] test_db_new freshResponse))"
    by (simp add: run_resources)
  have d2: "any_step_failed deniedClient failingAssignment []
      (snd (collectionResource_Create deniedClient [] test_collection freshResponse))"
    by (simp add: run_resources)
  have d3: "any_step_failed deniedClient failingAssignment []
      (snd (collectionResource_Read deniedClient [] test_collection freshResponse))"
    by (simp add: run_resources)
  have d4: "any_step_failed deniedClient failingAssignment []
      (snd (indexResource_Create deniedClient failingAssignment [] test_index freshResponse))"
    by (simp add: run_resources)
  have d5: "any_step_failed deniedClient failingAssignment []
      (snd (indexResource_Read deniedClient [] test_index freshResponse))"
    by (simp add: run_resources)
  have none: "State (freshResponse :: databaseResourceModel option Response) = None"
    "State (freshResponse :: collectionResourceModel option Response) = None"
    "State (freshResponse :: indexResourceModel option Response) = None"
    by (simp_all add: freshResponse_def)
  show ?thesis
    using cleanup denied dropped d1 d2 d3 d4 d5 none by simp
qed

end
